theory Spec2Isabelle
  imports Complex_Main
begin

section \<open>The ideal-gas reactor of \<^verbatim>\<open>src/zeroD/IdealGasReactor.cpp\<close>\<close>

text \<open>
  A shallow embedding of \<^verbatim>\<open>IdealGasReactor\<close>. The conventions:
  \<^item> a C++ \<^verbatim>\<open>double\<close> is a real number: the arithmetic is exact, rounding, infinities
    and NaN are outside the model; no statement cancels a product against a quotient,
    which doubles do only up to rounding;
  \<^item> a raw \<^verbatim>\<open>double*\<close> (\<^verbatim>\<open>y\<close>, \<^verbatim>\<open>ydot\<close>, \<^verbatim>\<open>params\<close>) is a function from the index to
    the entry, pointer arithmetic \<^verbatim>\<open>y + 3\<close> is the buffer with an offset, and the
    \<^verbatim>\<open>Array2D\<close> Jacobian is a function of row and column;
  \<^item> a \<^verbatim>\<open>std::vector\<close> is a list;
  \<^item> a \<^verbatim>\<open>size_t\<close> is a natural number, all of them are indices of arrays in memory
    and stay far below \<open>2 ^ 64\<close>; the sentinel \<^verbatim>\<open>npos\<close> is \<open>2 ^ 64 - 1\<close>;
  \<^item> an exception is a value: every operation returns \<open>Some e\<close> (or \<open>Inl e\<close>) when it
    throws, together with the state of the objects at the moment of the throw;
  \<^item> the collaborators (property evaluator, kinetics, flow devices, walls) are records
    whose fields are their state and their queries; a query that computes something
    may throw, so it returns \<open>error + value\<close>.
\<close>

subsection \<open>Data model\<close>

type_synonym double = real

text \<open>
  \<open>CanteraError procedure message\<close> is the exception of the source.
  \<open>NullDereference\<close> stands for the undefined behaviour of calling through a
  collaborator pointer that is null: the model stops there.
\<close>

datatype error = CanteraError string string | NullDereference

definition npos :: nat where
  "npos = 2 ^ 64 - 1"

text \<open>
  Modelled from the spec: the low-level state of the property evaluator
  (\<^verbatim>\<open>ThermoPhase\<close>, not in the sources) and the snapshot that \<^verbatim>\<open>saveState\<close> produces
  and \<^verbatim>\<open>restoreState\<close> consumes: temperature, density and one mass fraction per species.
\<close>

record tstate =
  st_T :: double
  st_rho :: double
  st_Y :: "double list"

text \<open>
  Modelled from the spec: the property evaluator, with the capabilities the reactor
  consumes. The computed properties depend on the state of the evaluator and on the
  current values of the sensitivity parameters.
\<close>

record ThermoPhase =
  tp_type :: string
  tp_speciesNames :: "string list"
  tp_molecularWeights :: "double list"
  tp_state :: tstate
  tp_enthalpy_mass :: "double list \<Rightarrow> tstate \<Rightarrow> error + double"
  tp_pressure :: "double list \<Rightarrow> tstate \<Rightarrow> error + double"
  tp_intEnergy_mass :: "double list \<Rightarrow> tstate \<Rightarrow> error + double"
  tp_cv_mass :: "double list \<Rightarrow> tstate \<Rightarrow> error + double"
  tp_partialMolarIntEnergies :: "double list \<Rightarrow> tstate \<Rightarrow> error + double list"
  tp_dCp_RdT :: "double list \<Rightarrow> tstate \<Rightarrow> error + double list"
  tp_Cp_R :: "double list \<Rightarrow> tstate \<Rightarrow> error + double list"

text \<open>Modelled from the spec: the kinetics evaluator (\<^verbatim>\<open>Kinetics\<close>, not in the sources).\<close>

record Kinetics =
  kin_netProductionRates :: "double list \<Rightarrow> tstate \<Rightarrow> error + double list"
  kin_netProductionRateTDerivatives :: "double list \<Rightarrow> tstate \<Rightarrow> error + double list"

text \<open>
  Modelled from the spec: a flow device (\<^verbatim>\<open>FlowDevice\<close>, not in the sources): the mass
  flow rate at a time, the enthalpy per mass of the mixture, the outlet mass flow rate
  of a species.
\<close>

record FlowDevice =
  fd_massFlowRate :: "double \<Rightarrow> error + double"
  fd_enthalpy_mass :: "error + double"
  fd_outletSpeciesMassFlowRate :: "nat \<Rightarrow> error + double"

text \<open>
  Modelled from the spec: a wall (\<^verbatim>\<open>Wall\<close>, not in the sources). Its surface has
  \<open>length (w_surfSpecies w)\<close> species; \<open>w_initCoverages\<close> is what the initial coverage
  retrieval hands out, \<open>w_coverages\<close> is the coverage state the updater sets.
  \<open>w_surface\<close> is the surface evaluation at a time: the coverage derivatives, the
  production rate of every gas species and the net mass flux into the gas.
\<close>

record Wall =
  w_surfSpecies :: "string list"
  w_initCoverages :: "double list"
  w_coverages :: "double list"
  w_vdot :: "double \<Rightarrow> error + double"
  w_Q :: "double \<Rightarrow> error + double"
  w_surface :: "double \<Rightarrow> double list \<Rightarrow> error + (double list \<times> double list \<times> double)"

text \<open>
  The reactor: the members of \<^verbatim>\<open>IdealGasReactor\<close> and of its base classes that the
  source file reads or writes. The collaborators are owned by the record; a null
  \<^verbatim>\<open>m_thermo\<close> or \<^verbatim>\<open>m_kin\<close> is \<open>None\<close>.
  Modelled from the spec: the sensitivity parameters. \<open>m_sensValues\<close> are the perturbable
  inputs as the collaborators see them, \<open>m_sensSaved\<close> their values saved while a
  perturbation is applied, \<open>m_perturb\<close> how a perturbation changes one value.
\<close>

record Reactor =
  m_thermo :: "ThermoPhase option"
  m_kin :: "Kinetics option"
  m_nsp :: nat
  m_state :: tstate
  m_mass :: double
  m_vol :: double
  m_vdot :: double
  m_Q :: double
  m_enthalpy :: double
  m_pressure :: double
  m_intEnergy :: double
  m_chem :: bool
  m_energy :: bool
  m_uk :: "double list"
  m_wdot :: "double list"
  m_sdot :: "double list"
  m_work :: "double list"
  m_inlet :: "FlowDevice list"
  m_outlet :: "FlowDevice list"
  m_wall :: "Wall list"
  m_sensValues :: "double list"
  m_sensSaved :: "double list"
  m_perturb :: "double \<Rightarrow> double \<Rightarrow> double"

subsection \<open>Buffers\<close>

text \<open>
  \<open>write_block vs n y off\<close> is the buffer \<open>y\<close> after a callee has written the \<open>n\<close>
  entries \<open>vs\<close> through the pointer \<open>y + off\<close>; \<open>read_block y off n\<close> are the \<open>n\<close>
  entries a callee reads through \<open>y + off\<close>. \<open>store_vec vs buf\<close> is the vector \<open>buf\<close>
  after a callee has written \<open>vs\<close> through \<^verbatim>\<open>&buf[0]\<close>.
\<close>

definition write_block :: "double list \<Rightarrow> nat \<Rightarrow> (nat \<Rightarrow> double) \<Rightarrow> nat \<Rightarrow> (nat \<Rightarrow> double)" where
  "write_block vs n y off = (\<lambda>i. if off \<le> i \<and> i < off + n then vs ! (i - off) else y i)"

definition read_block :: "(nat \<Rightarrow> double) \<Rightarrow> nat \<Rightarrow> nat \<Rightarrow> double list" where
  "read_block y off n = map (\<lambda>k. y (off + k)) [0..<n]"

definition store_vec :: "double list \<Rightarrow> double list \<Rightarrow> double list" where
  "store_vec vs buf = vs @ drop (length vs) buf"

subsection \<open>The property evaluator's state operations\<close>

text \<open>Modelled from the spec: the state queries and updates of the property evaluator.\<close>

definition nSpecies :: "ThermoPhase \<Rightarrow> nat" where
  "nSpecies th = length (tp_speciesNames th)"

definition temperature :: "ThermoPhase \<Rightarrow> double" where
  "temperature th = st_T (tp_state th)"

definition density :: "ThermoPhase \<Rightarrow> double" where
  "density th = st_rho (tp_state th)"

definition massFractions :: "ThermoPhase \<Rightarrow> double list" where
  "massFractions th = st_Y (tp_state th)"

definition saveState :: "ThermoPhase \<Rightarrow> tstate" where
  "saveState th = tp_state th"

definition restoreState :: "ThermoPhase \<Rightarrow> tstate \<Rightarrow> ThermoPhase" where
  "restoreState th s = th\<lparr>tp_state := s\<rparr>"

definition getMassFractions :: "ThermoPhase \<Rightarrow> (nat \<Rightarrow> double) \<Rightarrow> nat \<Rightarrow> (nat \<Rightarrow> double)" where
  "getMassFractions th y off = write_block (massFractions th) (nSpecies th) y off"

definition setMassFractions_NoNorm :: "ThermoPhase \<Rightarrow> (nat \<Rightarrow> double) \<Rightarrow> nat \<Rightarrow> ThermoPhase" where
  "setMassFractions_NoNorm th y off =
     th\<lparr>tp_state := (tp_state th)\<lparr>st_Y := read_block y off (nSpecies th)\<rparr>\<rparr>"

definition setState_TR :: "ThermoPhase \<Rightarrow> double \<Rightarrow> double \<Rightarrow> ThermoPhase" where
  "setState_TR th t rho = th\<lparr>tp_state := (tp_state th)\<lparr>st_T := t, st_rho := rho\<rparr>\<rparr>"

subsection \<open>The base class\<close>

text \<open>
  Modelled from the spec: \<^verbatim>\<open>Reactor::setThermoMgr\<close> (not in the sources) attaches the
  property evaluator: it sets the reactor's reference.
\<close>

definition Reactor_setThermoMgr :: "Reactor \<Rightarrow> ThermoPhase \<Rightarrow> Reactor" where
  "Reactor_setThermoMgr r thermo = r\<lparr>m_thermo := Some thermo\<rparr>"

text \<open>
  Modelled from the spec: \<^verbatim>\<open>getSurfaceInitialConditions\<close> (not in the sources) writes
  every wall's initial coverages, wall after wall in the order of registration, each
  block as long as the wall's surface has species.
\<close>

definition nSurfSpecies :: "Wall \<Rightarrow> nat" where
  "nSurfSpecies w = length (w_surfSpecies w)"

fun surfaceInitialConditions :: "Wall list \<Rightarrow> (nat \<Rightarrow> double) \<Rightarrow> nat \<Rightarrow> (nat \<Rightarrow> double)" where
  "surfaceInitialConditions [] y loc = y"
| "surfaceInitialConditions (w # ws) y loc =
     surfaceInitialConditions ws (write_block (w_initCoverages w) (nSurfSpecies w) y loc)
       (loc + nSurfSpecies w)"

definition getSurfaceInitialConditions :: "Reactor \<Rightarrow> (nat \<Rightarrow> double) \<Rightarrow> nat \<Rightarrow> (nat \<Rightarrow> double)" where
  "getSurfaceInitialConditions r y off = surfaceInitialConditions (m_wall r) y off"

text \<open>
  Modelled from the spec: \<^verbatim>\<open>updateSurfaceState\<close> (not in the sources) hands the
  coverage suffix to every wall's surface-state updater, in the same order.
\<close>

fun surfaceStates :: "Wall list \<Rightarrow> (nat \<Rightarrow> double) \<Rightarrow> nat \<Rightarrow> Wall list" where
  "surfaceStates [] y loc = []"
| "surfaceStates (w # ws) y loc =
     w\<lparr>w_coverages := read_block y loc (nSurfSpecies w)\<rparr>
       # surfaceStates ws y (loc + nSurfSpecies w)"

definition updateSurfaceState :: "Reactor \<Rightarrow> (nat \<Rightarrow> double) \<Rightarrow> nat \<Rightarrow> Reactor" where
  "updateSurfaceState r y off = r\<lparr>m_wall := surfaceStates (m_wall r) y off\<rparr>"

text \<open>
  Modelled from the spec: \<^verbatim>\<open>speciesIndex\<close> (not in the sources) is the index of the
  gas species of that name, \<^verbatim>\<open>npos\<close> when there is none.
\<close>

fun index_from :: "string list \<Rightarrow> string \<Rightarrow> nat \<Rightarrow> nat" where
  "index_from [] nm k = npos"
| "index_from (x # xs) nm k = (if x = nm then k else index_from xs nm (Suc k))"

definition gasSpeciesNames :: "Reactor \<Rightarrow> string list" where
  "gasSpeciesNames r = (case m_thermo r of None \<Rightarrow> [] | Some th \<Rightarrow> tp_speciesNames th)"

definition speciesIndex :: "Reactor \<Rightarrow> string \<Rightarrow> nat" where
  "speciesIndex r nm = index_from (gasSpeciesNames r) nm 0"

text \<open>
  Modelled from the spec: \<^verbatim>\<open>Reactor::componentName\<close> (not in the sources) names the
  components \<open>3 .. 3 + K\<close> by the gas species and the components beyond by the surface
  species of the walls. What it answers for any other index is not described, and is
  the parameter \<open>other\<close>.
\<close>

definition Reactor_componentName :: "(nat \<Rightarrow> error + string) \<Rightarrow> Reactor \<Rightarrow> nat \<Rightarrow> error + string" where
  "Reactor_componentName other r k =
     (let gas = gasSpeciesNames r;
          surf = concat (map w_surfSpecies (m_wall r))
      in if 3 \<le> k \<and> k < 3 + length gas then Inr (gas ! (k - 3))
         else if 3 + length gas \<le> k \<and> k < 3 + length gas + length surf
              then Inr (surf ! (k - 3 - length gas))
         else other k)"

subsection \<open>\<^verbatim>\<open>setThermoMgr\<close>, \<^verbatim>\<open>getState\<close>, \<^verbatim>\<open>updateState\<close>\<close>

text \<open>Lines 16 to 25.\<close>

definition setThermoMgr :: "Reactor \<Rightarrow> ThermoPhase \<Rightarrow> error option \<times> Reactor" where
  "setThermoMgr r thermo =
     (if tp_type thermo \<noteq> ''IdealGas''
      then (Some (CanteraError ''IdealGasReactor::setThermoMgr''
                    ''Incompatible phase type provided''), r)
      else (None, Reactor_setThermoMgr r thermo))"

text \<open>Lines 27 to 51. The result is the exception if any, the reactor and the buffer \<open>y\<close>.\<close>

definition getState :: "Reactor \<Rightarrow> (nat \<Rightarrow> double) \<Rightarrow> error option \<times> Reactor \<times> (nat \<Rightarrow> double)" where
  "getState r y =
     (case m_thermo r of
        None \<Rightarrow> (Some (CanteraError ''getState'' ''Error: reactor is empty.''), r, y)
      | Some th0 \<Rightarrow>
          let th = restoreState th0 (m_state r);
              r1 = r\<lparr>m_thermo := Some th, m_mass := density th * m_vol r\<rparr>;
              y1 = y(0 := m_mass r1);
              y2 = y1(1 := m_vol r1);
              y3 = y2(2 := temperature th);
              y4 = getMassFractions th y3 3;
              y5 = getSurfaceInitialConditions r1 y4 (m_nsp r1 + 3)
          in (None, r1, y5))"

text \<open>
  Lines 59 to 75. The three cached properties are computed one after the other, and a
  throw leaves the members already assigned as they are.
\<close>

definition updateState :: "Reactor \<Rightarrow> (nat \<Rightarrow> double) \<Rightarrow> error option \<times> Reactor" where
  "updateState r y =
     (let r1 = r\<lparr>m_mass := y 0, m_vol := y 1\<rparr>
      in case m_thermo r1 of
        None \<Rightarrow> (Some NullDereference, r1)
      | Some th0 \<Rightarrow>
          let th1 = setMassFractions_NoNorm th0 y 3;
              th2 = setState_TR th1 (y 2) (m_mass r1 / m_vol r1);
              r2 = updateSurfaceState (r1\<lparr>m_thermo := Some th2\<rparr>) y (m_nsp r1 + 3);
              sv = m_sensValues r2
          in case tp_enthalpy_mass th2 sv (tp_state th2) of
               Inl e \<Rightarrow> (Some e, r2)
             | Inr h \<Rightarrow>
                 let r3 = r2\<lparr>m_enthalpy := h\<rparr>
                 in case tp_pressure th2 sv (tp_state th2) of
                      Inl e \<Rightarrow> (Some e, r3)
                    | Inr p \<Rightarrow>
                        let r4 = r3\<lparr>m_pressure := p\<rparr>
                        in case tp_intEnergy_mass th2 sv (tp_state th2) of
                             Inl e \<Rightarrow> (Some e, r4)
                           | Inr u \<Rightarrow>
                               (None, r4\<lparr>m_intEnergy := u, m_state := saveState th2\<rparr>))"

text \<open>
  Lines 53 to 57. \<^verbatim>\<open>Reactor::initialize\<close> is not in the sources and is the parameter
  \<open>base\<close>; \<open>resize xs n v\<close> is \<^verbatim>\<open>xs.resize(n, v)\<close>.
\<close>

definition resize :: "double list \<Rightarrow> nat \<Rightarrow> double \<Rightarrow> double list" where
  "resize xs n v = take n xs @ replicate (n - length xs) v"

definition initialize :: "(Reactor \<Rightarrow> double \<Rightarrow> error option \<times> Reactor) \<Rightarrow> Reactor \<Rightarrow> double
    \<Rightarrow> error option \<times> Reactor" where
  "initialize base r t0 =
     (case base r t0 of
        (Some e, r1) \<Rightarrow> (Some e, r1)
      | (None, r1) \<Rightarrow> (None, r1\<lparr>m_uk := resize (m_uk r1) (m_nsp r1) 0\<rparr>))"

subsection \<open>\<^verbatim>\<open>componentIndex\<close>, \<^verbatim>\<open>componentName\<close>\<close>

text \<open>Lines 210 to 224.\<close>

definition componentIndex :: "Reactor \<Rightarrow> string \<Rightarrow> nat" where
  "componentIndex r nm =
     (let k = speciesIndex r nm
      in if k \<noteq> npos then k + 3
         else if nm = ''mass'' then 0
         else if nm = ''volume'' then 1
         else if nm = ''temperature'' then 2
         else npos)"

text \<open>Lines 226 to 232.\<close>

definition componentName :: "(nat \<Rightarrow> error + string) \<Rightarrow> Reactor \<Rightarrow> nat \<Rightarrow> error + string" where
  "componentName other r k =
     (if k = 2 then Inr ''temperature'' else Reactor_componentName other r k)"

subsection \<open>Sensitivity, walls and surfaces\<close>

text \<open>
  Modelled from the spec: \<^verbatim>\<open>applySensitivity\<close> and \<^verbatim>\<open>resetSensitivity\<close> (not in the
  sources). Applying saves the current value of every perturbable input and perturbs
  it by the entry of \<open>params\<close>; resetting puts the saved values back.
\<close>

definition applySensitivity :: "Reactor \<Rightarrow> (nat \<Rightarrow> double) \<Rightarrow> Reactor" where
  "applySensitivity r params =
     r\<lparr>m_sensSaved := m_sensValues r,
       m_sensValues := map (\<lambda>i. m_perturb r (m_sensValues r ! i) (params i))
                         [0..<length (m_sensValues r)]\<rparr>"

definition resetSensitivity :: "Reactor \<Rightarrow> (nat \<Rightarrow> double) \<Rightarrow> Reactor" where
  "resetSensitivity r params = r\<lparr>m_sensValues := m_sensSaved r\<rparr>"

text \<open>
  Modelled from the spec: \<^verbatim>\<open>evalWalls\<close> (not in the sources) evaluates the walls at a
  time: the rate of change of the volume and the heat rate are the sums of the walls'
  contributions.
\<close>

fun sumWalls :: "(Wall \<Rightarrow> double \<Rightarrow> error + double) \<Rightarrow> Wall list \<Rightarrow> double \<Rightarrow> error + double" where
  "sumWalls f [] t = Inr 0"
| "sumWalls f (w # ws) t =
     (case f w t of
        Inl e \<Rightarrow> Inl e
      | Inr v \<Rightarrow> (case sumWalls f ws t of Inl e \<Rightarrow> Inl e | Inr s \<Rightarrow> Inr (v + s)))"

definition evalWalls :: "Reactor \<Rightarrow> double \<Rightarrow> error + Reactor" where
  "evalWalls r t =
     (case sumWalls w_vdot (m_wall r) t of
        Inl e \<Rightarrow> Inl e
      | Inr vd \<Rightarrow>
          (case sumWalls w_Q (m_wall r) t of
             Inl e \<Rightarrow> Inl e
           | Inr q \<Rightarrow> Inr (r\<lparr>m_vdot := vd, m_Q := q\<rparr>)))"

text \<open>
  Modelled from the spec: \<^verbatim>\<open>evalSurfaces\<close> (not in the sources) evaluates the surfaces
  of the walls, in order: the coverage derivatives of a wall are written into its
  block of the derivative vector, the production rates of the gas species are summed
  into \<^verbatim>\<open>m_sdot\<close>, and the result is the net mass flux from the surfaces into the gas.
\<close>

fun surfaceLoop :: "Wall list \<Rightarrow> double \<Rightarrow> double list \<Rightarrow> nat \<Rightarrow> double list \<Rightarrow> double
    \<Rightarrow> (nat \<Rightarrow> double) \<Rightarrow> (error + double list \<times> double) \<times> (nat \<Rightarrow> double)" where
  "surfaceLoop [] t sv loc sdot mdot ydot = (Inr (sdot, mdot), ydot)"
| "surfaceLoop (w # ws) t sv loc sdot mdot ydot =
     (case w_surface w t sv of
        Inl e \<Rightarrow> (Inl e, ydot)
      | Inr (covdot, sd, flux) \<Rightarrow>
          surfaceLoop ws t sv (loc + nSurfSpecies w)
            (map (\<lambda>k. sdot ! k + sd ! k) [0..<length sdot]) (mdot + flux)
            (write_block covdot (nSurfSpecies w) ydot loc))"

definition evalSurfaces :: "Reactor \<Rightarrow> double \<Rightarrow> (nat \<Rightarrow> double) \<Rightarrow> nat
    \<Rightarrow> (error + double) \<times> Reactor \<times> (nat \<Rightarrow> double)" where
  "evalSurfaces r t ydot off =
     (case surfaceLoop (m_wall r) t (m_sensValues r) off (replicate (m_nsp r) 0) 0 ydot of
        (Inl e, ydot1) \<Rightarrow> (Inl e, r, ydot1)
      | (Inr (sdot, mdot), ydot1) \<Rightarrow> (Inr mdot, r\<lparr>m_sdot := sdot\<rparr>, ydot1))"

subsection \<open>\<^verbatim>\<open>evalEqs\<close>\<close>

text \<open>Lines 90 to 92: the net production rates are fetched only when \<^verbatim>\<open>m_chem\<close> is set.\<close>

definition fetchNetProductionRates :: "Reactor \<Rightarrow> ThermoPhase \<Rightarrow> error + Reactor" where
  "fetchNetProductionRates r th =
     (if m_chem r
      then (case m_kin r of
              None \<Rightarrow> Inl NullDereference
            | Some kin \<Rightarrow>
                (case kin_netProductionRates kin (m_sensValues r) (tp_state th) of
                   Inl e \<Rightarrow> Inl e
                 | Inr w \<Rightarrow> Inr (r\<lparr>m_wdot := store_vec w (m_wdot r)\<rparr>)))
      else Inr r)"

text \<open>
  Lines 101 to 109, one pass of the loop over the gas species; \<^verbatim>\<open>dYdt[n]\<close> is
  \<^verbatim>\<open>ydot[3 + n]\<close>.
\<close>

definition speciesTerm :: "Reactor \<Rightarrow> double list \<Rightarrow> double list \<Rightarrow> double \<Rightarrow> nat
    \<Rightarrow> double \<times> (nat \<Rightarrow> double) \<Rightarrow> double \<times> (nat \<Rightarrow> double)" where
  "speciesTerm r mw Y mdot_surf n acc =
     (let mcvdTdt = fst acc; ydot = snd acc;
          mcvdTdt1 = mcvdTdt - m_wdot r ! n * m_uk r ! n * m_vol r;
          mcvdTdt2 = mcvdTdt1 - m_sdot r ! n * m_uk r ! n;
          ydot1 = ydot(3 + n := (m_wdot r ! n * m_vol r + m_sdot r ! n) * mw ! n / m_mass r);
          ydot2 = ydot1(3 + n := ydot1 (3 + n) - Y ! n * mdot_surf / m_mass r)
      in (mcvdTdt2, ydot2))"

definition speciesLoop :: "Reactor \<Rightarrow> double list \<Rightarrow> double list \<Rightarrow> double
    \<Rightarrow> double \<times> (nat \<Rightarrow> double) \<Rightarrow> double \<times> (nat \<Rightarrow> double)" where
  "speciesLoop r mw Y mdot_surf acc = fold (speciesTerm r mw Y mdot_surf) [0..<m_nsp r] acc"

text \<open>Lines 112 to 116: the outlets, on the accumulators \<^verbatim>\<open>dmdt\<close> and \<^verbatim>\<open>mcvdTdt\<close>.\<close>

fun outletLoop :: "Reactor \<Rightarrow> double \<Rightarrow> FlowDevice list \<Rightarrow> double \<times> double \<Rightarrow> error + double \<times> double" where
  "outletLoop r time [] acc = Inr acc"
| "outletLoop r time (d # ds) acc =
     (case fd_massFlowRate d time of
        Inl e \<Rightarrow> Inl e
      | Inr mdot_out \<Rightarrow>
          outletLoop r time ds
            (fst acc - mdot_out, snd acc - mdot_out * m_pressure r * m_vol r / m_mass r))"

text \<open>Lines 123 to 131: the species of one inlet, on \<^verbatim>\<open>mcvdTdt\<close> and \<^verbatim>\<open>ydot\<close>.\<close>

fun inletSpecies :: "Reactor \<Rightarrow> double list \<Rightarrow> double list \<Rightarrow> FlowDevice \<Rightarrow> double \<Rightarrow> nat list
    \<Rightarrow> double \<Rightarrow> (nat \<Rightarrow> double) \<Rightarrow> (error + double) \<times> (nat \<Rightarrow> double)" where
  "inletSpecies r mw Y d mdot_in [] mcvdTdt ydot = (Inr mcvdTdt, ydot)"
| "inletSpecies r mw Y d mdot_in (n # ns) mcvdTdt ydot =
     (case fd_outletSpeciesMassFlowRate d n of
        Inl e \<Rightarrow> (Inl e, ydot)
      | Inr mdot_spec \<Rightarrow>
          inletSpecies r mw Y d mdot_in ns
            (mcvdTdt - m_uk r ! n / mw ! n * mdot_spec)
            (ydot(3 + n := ydot (3 + n) + (mdot_spec - mdot_in * Y ! n) / m_mass r)))"

text \<open>Lines 119 to 132: the inlets, on \<^verbatim>\<open>dmdt\<close>, \<^verbatim>\<open>mcvdTdt\<close> and \<^verbatim>\<open>ydot\<close>.\<close>

fun inletLoop :: "Reactor \<Rightarrow> double list \<Rightarrow> double list \<Rightarrow> double \<Rightarrow> FlowDevice list
    \<Rightarrow> double \<Rightarrow> double \<Rightarrow> (nat \<Rightarrow> double) \<Rightarrow> (error + double \<times> double) \<times> (nat \<Rightarrow> double)" where
  "inletLoop r mw Y time [] dmdt mcvdTdt ydot = (Inr (dmdt, mcvdTdt), ydot)"
| "inletLoop r mw Y time (d # ds) dmdt mcvdTdt ydot =
     (case fd_massFlowRate d time of
        Inl e \<Rightarrow> (Inl e, ydot)
      | Inr mdot_in \<Rightarrow>
          (case fd_enthalpy_mass d of
             Inl e \<Rightarrow> (Inl e, ydot)
           | Inr h \<Rightarrow>
               (case inletSpecies r mw Y d mdot_in [0..<m_nsp r] (mcvdTdt + h * mdot_in) ydot of
                  (Inl e, ydot1) \<Rightarrow> (Inl e, ydot1)
                | (Inr mcvdTdt1, ydot1) \<Rightarrow>
                    inletLoop r mw Y time ds (dmdt + mdot_in) mcvdTdt1 ydot1)))"

text \<open>
  Lines 96 to 140: the balances, from the net surface mass flux \<^verbatim>\<open>mdot_surf\<close> on. The
  result is the exception if any, and the buffer \<^verbatim>\<open>ydot\<close>.
\<close>

definition evalBalances :: "Reactor \<Rightarrow> ThermoPhase \<Rightarrow> double \<Rightarrow> double \<Rightarrow> (nat \<Rightarrow> double)
    \<Rightarrow> error option \<times> (nat \<Rightarrow> double)" where
  "evalBalances r th time mdot_surf ydot =
     (let mw = tp_molecularWeights th;
          Y = massFractions th;
          dmdt = 0 + mdot_surf;
          mcvdTdt = 0 + (- m_pressure r * m_vdot r - m_Q r);
          sp = speciesLoop r mw Y mdot_surf (mcvdTdt, ydot)
      in case outletLoop r time (m_outlet r) (dmdt, fst sp) of
           Inl e \<Rightarrow> (Some e, snd sp)
         | Inr out \<Rightarrow>
             (case inletLoop r mw Y time (m_inlet r) (fst out) (snd out) (snd sp) of
                (Inl e, ydot1) \<Rightarrow> (Some e, ydot1)
              | (Inr inl, ydot1) \<Rightarrow>
                  let ydot2 = ydot1(0 := fst inl);
                      ydot3 = ydot2(1 := m_vdot r)
                  in if m_energy r
                     then (case tp_cv_mass th (m_sensValues r) (tp_state th) of
                             Inl e \<Rightarrow> (Some e, ydot3)
                           | Inr cv \<Rightarrow> (None, ydot3(2 := snd inl / (m_mass r * cv))))
                     else (None, ydot3(2 := 0))))"

text \<open>
  Lines 86 to 140: everything between \<^verbatim>\<open>applySensitivity\<close> and \<^verbatim>\<open>resetSensitivity\<close>.
  \<open>th\<close> is the property evaluator behind \<^verbatim>\<open>m_thermo\<close>.
\<close>

definition evalEqs_body :: "Reactor \<Rightarrow> ThermoPhase \<Rightarrow> double \<Rightarrow> (nat \<Rightarrow> double)
    \<Rightarrow> error option \<times> Reactor \<times> (nat \<Rightarrow> double)" where
  "evalEqs_body r th time ydot =
     (case tp_partialMolarIntEnergies th (m_sensValues r) (tp_state th) of
        Inl e \<Rightarrow> (Some e, r, ydot)
      | Inr uk \<Rightarrow>
          let r1 = r\<lparr>m_uk := store_vec uk (m_uk r)\<rparr>
          in case fetchNetProductionRates r1 th of
               Inl e \<Rightarrow> (Some e, r1, ydot)
             | Inr r2 \<Rightarrow>
                 (case evalWalls r2 time of
                    Inl e \<Rightarrow> (Some e, r2, ydot)
                  | Inr r3 \<Rightarrow>
                      (case evalSurfaces r3 time ydot (m_nsp r3 + 3) of
                         (Inl e, r4, ydot1) \<Rightarrow> (Some e, r4, ydot1)
                       | (Inr mdot_surf, r4, ydot1) \<Rightarrow>
                           (case evalBalances r4 th time mdot_surf ydot1 of
                              (res, ydot2) \<Rightarrow> (res, r4, ydot2)))))"

text \<open>
  Lines 77 to 143. There is no handler and no scope guard in the function: when a
  collaborator throws, the exception leaves \<^verbatim>\<open>evalEqs\<close> at once and line 142 is not
  reached. The argument \<open>y\<close> is not read.
\<close>

definition evalEqs :: "Reactor \<Rightarrow> double \<Rightarrow> (nat \<Rightarrow> double) \<Rightarrow> (nat \<Rightarrow> double) \<Rightarrow> (nat \<Rightarrow> double)
    \<Rightarrow> error option \<times> Reactor \<times> (nat \<Rightarrow> double)" where
  "evalEqs r time y ydot params =
     (case m_thermo r of
        None \<Rightarrow> (Some NullDereference, r, ydot)
      | Some th0 \<Rightarrow>
          let th = restoreState th0 (m_state r);
              r1 = applySensitivity (r\<lparr>m_thermo := Some th\<rparr>) params
          in case evalEqs_body r1 th time ydot of
               (Some e, r2, ydot1) \<Rightarrow> (Some e, r2, ydot1)
             | (None, r2, ydot1) \<Rightarrow> (None, resetSensitivity r2 params, ydot1))"

subsection \<open>\<^verbatim>\<open>evalJacEqs\<close>\<close>

text \<open>Lines 158 to 160: the sum \<^verbatim>\<open>dcvRdT\<close>; one pass adds the term of species \<open>i\<close>.\<close>

definition dcvRdT_term :: "double list \<Rightarrow> double list \<Rightarrow> (nat \<Rightarrow> double) \<Rightarrow> nat \<Rightarrow> nat \<Rightarrow> double" where
  "dcvRdT_term dCvRdT mw y start i = dCvRdT ! i / mw ! i * y (start + i)"

definition dcvRdT_loop :: "double list \<Rightarrow> double list \<Rightarrow> (nat \<Rightarrow> double) \<Rightarrow> nat \<Rightarrow> nat \<Rightarrow> double" where
  "dcvRdT_loop dCvRdT mw y start nsp =
     fold (\<lambda>i acc. acc + dcvRdT_term dCvRdT mw y start i) [0..<nsp] 0"

text \<open>
  Lines 173 to 179: the sum \<^verbatim>\<open>df1dT\<close>. The source calls \<^verbatim>\<open>cv_mass()\<close> in every pass; the
  evaluator's state does not change in between, so \<open>cv\<close> is the value of the call on
  line 163.
\<close>

definition df1dT_loop :: "Reactor \<Rightarrow> double \<Rightarrow> double \<Rightarrow> double \<Rightarrow> double" where
  "df1dT_loop r dcvRdT cv RT =
     fold (\<lambda>i acc.
             let CvR = m_work r ! i - 1;
                 CvR1 = CvR - m_uk r ! i * dcvRdT / cv;
                 CvR2 = CvR1 - m_uk r ! i / RT;
                 CvR3 = CvR2 * (m_wdot r ! i * m_vol r + m_sdot r ! i)
             in acc + CvR3) [0..<m_nsp r] 0"

text \<open>Lines 182 to 185: the sum \<^verbatim>\<open>df1dT_2t\<close>.\<close>

definition df1dT_2t_loop :: "Reactor \<Rightarrow> double list \<Rightarrow> double" where
  "df1dT_2t_loop r dwdotdT =
     fold (\<lambda>i acc. let prod_rate = m_vol r * dwdotdT ! i in acc + m_uk r ! i * prod_rate)
       [0..<m_nsp r] 0"

text \<open>An assignment \<^verbatim>\<open>J(a, b) = v\<close>.\<close>

definition jac_set :: "(nat \<Rightarrow> nat \<Rightarrow> double) \<Rightarrow> nat \<Rightarrow> nat \<Rightarrow> double \<Rightarrow> (nat \<Rightarrow> nat \<Rightarrow> double)" where
  "jac_set J a b v = J(a := (J a)(b := v))"

text \<open>Lines 196 to 199: the species rows of the temperature column.\<close>

definition speciesRows :: "Reactor \<Rightarrow> double list \<Rightarrow> double list \<Rightarrow> double \<Rightarrow> nat \<Rightarrow> nat
    \<Rightarrow> (nat \<Rightarrow> nat \<Rightarrow> double) \<Rightarrow> (nat \<Rightarrow> nat \<Rightarrow> double)" where
  "speciesRows r mw dwdotdT T y_ind T_ind J =
     fold (\<lambda>i J'. jac_set J' (y_ind + i) T_ind
                    (mw ! i / m_mass r * ((m_vol r * m_wdot r ! i + m_sdot r ! i) / T + dwdotdT ! i)))
       [0..<m_nsp r] J"

text \<open>
  Lines 146 to 208. \<open>GasConstant\<close> is a constant of a header that is not in the sources,
  and is the first argument. The line that prints the diagonal entry is not part of
  the model. The result is the exception if any, the reactor and the Jacobian.
\<close>

definition evalJacEqs :: "double \<Rightarrow> Reactor \<Rightarrow> double \<Rightarrow> (nat \<Rightarrow> double) \<Rightarrow> (nat \<Rightarrow> nat \<Rightarrow> double) \<Rightarrow> nat
    \<Rightarrow> error option \<times> Reactor \<times> (nat \<Rightarrow> nat \<Rightarrow> double)" where
  "evalJacEqs GasConstant r time y J start =
     (case m_thermo r of
        None \<Rightarrow> (Some NullDereference, r, J)
      | Some th \<Rightarrow>
          let sv = m_sensValues r;
              st = tp_state th;
              RT = GasConstant * temperature th
          in case tp_dCp_RdT th sv st of
               Inl e \<Rightarrow> (Some e, r, J)
             | Inr d \<Rightarrow>
          let dCvRdT = store_vec d (replicate (m_nsp r) 0);
              mw = tp_molecularWeights th;
              dcvRdT = dcvRdT_loop dCvRdT mw y start (m_nsp r)
          in case tp_cv_mass th sv st of
               Inl e \<Rightarrow> (Some e, r, J)
             | Inr cv \<Rightarrow>
          let inv_mcv = 1 / (m_mass r * cv)
          in case tp_Cp_R th sv st of
               Inl e \<Rightarrow> (Some e, r, J)
             | Inr cp \<Rightarrow>
          let r1 = r\<lparr>m_work := store_vec cp (m_work r)\<rparr>
          in case tp_partialMolarIntEnergies th sv st of
               Inl e \<Rightarrow> (Some e, r1, J)
             | Inr uk \<Rightarrow>
          let r2 = r1\<lparr>m_uk := store_vec uk (m_uk r1)\<rparr>
          in case m_kin r2 of
               None \<Rightarrow> (Some NullDereference, r2, J)
             | Some kin \<Rightarrow>
          (case kin_netProductionRates kin sv st of
               Inl e \<Rightarrow> (Some e, r2, J)
             | Inr w \<Rightarrow>
          let r3 = r2\<lparr>m_wdot := store_vec w (m_wdot r2)\<rparr>
          in case kin_netProductionRateTDerivatives kin sv st of
               Inl e \<Rightarrow> (Some e, r3, J)
             | Inr dw \<Rightarrow>
          let dwdotdT = store_vec dw (replicate (m_nsp r3) 0);
              df1dT = df1dT_loop r3 dcvRdT cv RT * (inv_mcv * GasConstant);
              df1dT_2t = df1dT_2t_loop r3 dwdotdT * inv_mcv;
              T_ind = start + 2;
              J1 = jac_set J T_ind T_ind (df1dT - df1dT_2t);
              y_ind = start + 3;
              T = temperature th;
              J2 = speciesRows r3 mw dwdotdT T y_ind T_ind J1
          in (None, r3, J2)))"

subsection \<open>Notions the statements use\<close>

text \<open>
  The layout the spec gives the coverage part of the state vector: one block per wall,
  in the order of the walls, each block as long as the wall's surface has species.
\<close>

definition coverageLayout :: "Wall list \<Rightarrow> double list" where
  "coverageLayout ws =
     concat (map (\<lambda>w. map (\<lambda>k. w_initCoverages w ! k) [0..<nSurfSpecies w]) ws)"

text \<open>The value lines 106 and 108 leave in \<^verbatim>\<open>dYdt[n]\<close>.\<close>

definition speciesRate :: "Reactor \<Rightarrow> double list \<Rightarrow> double list \<Rightarrow> double \<Rightarrow> nat \<Rightarrow> double" where
  "speciesRate r mw Y mdot_surf n =
     (m_wdot r ! n * m_vol r + m_sdot r ! n) * mw ! n / m_mass r - Y ! n * mdot_surf / m_mass r"

text \<open>
  The entries of the Jacobian that belong to a reactor at offset \<open>start\<close> with \<open>K\<close> gas
  species and that are derivatives with respect to the temperature of the temperature
  and of the mass fractions: the diagonal entry of the temperature and the temperature
  column of the species rows.
\<close>

definition jacWritten :: "nat \<Rightarrow> nat \<Rightarrow> (nat \<times> nat) set" where
  "jacWritten start K = insert (start + 2, start + 2) {(start + 3 + k, start + 2) | k. k < K}"

text \<open>
  The evaluator holds the state of the reactor's snapshot. Every \<^verbatim>\<open>getState\<close> and every
  \<^verbatim>\<open>updateState\<close> that returns leaves the reactor so.
\<close>

definition in_sync :: "Reactor \<Rightarrow> bool" where
  "in_sync r = (case m_thermo r of None \<Rightarrow> False | Some th \<Rightarrow> saveState th = m_state r)"

subsection \<open>A reactor to compute with\<close>

text \<open>
  A gas of two species, kinetics that produce the first species at the rate of the
  first sensitivity parameter, kinetics that throw, kinetics without reactions, a wall
  with two surface species, and a reactor of volume 2 that holds the gas at density 2.
\<close>

definition example_gas :: ThermoPhase where
  "example_gas =
     \<lparr>tp_type = ''IdealGas'',
      tp_speciesNames = [''H2'', ''O2''],
      tp_molecularWeights = [2, 32],
      tp_state = \<lparr>st_T = 300, st_rho = 2, st_Y = [1 / 4, 3 / 4]\<rparr>,
      tp_enthalpy_mass = (\<lambda>sv st. Inr (st_T st)),
      tp_pressure = (\<lambda>sv st. Inr (st_rho st * st_T st)),
      tp_intEnergy_mass = (\<lambda>sv st. Inr (st_T st / 2)),
      tp_cv_mass = (\<lambda>sv st. Inr 1),
      tp_partialMolarIntEnergies = (\<lambda>sv st. Inr [1, 2]),
      tp_dCp_RdT = (\<lambda>sv st. Inr [6, 64]),
      tp_Cp_R = (\<lambda>sv st. Inr [3, 3])\<rparr>"

definition solid_phase :: ThermoPhase where
  "solid_phase = example_gas\<lparr>tp_type := ''StoichSubstance''\<rparr>"

definition example_kinetics :: Kinetics where
  "example_kinetics =
     \<lparr>kin_netProductionRates = (\<lambda>sv st. Inr [sv ! 0, 0]),
      kin_netProductionRateTDerivatives = (\<lambda>sv st. Inr [0, 0])\<rparr>"

definition failing_kinetics :: Kinetics where
  "failing_kinetics =
     \<lparr>kin_netProductionRates =
        (\<lambda>sv st. Inl (CanteraError ''getNetProductionRates'' ''failed'')),
      kin_netProductionRateTDerivatives = (\<lambda>sv st. Inr [0, 0])\<rparr>"

definition idle_kinetics :: Kinetics where
  "idle_kinetics =
     \<lparr>kin_netProductionRates = (\<lambda>sv st. Inr [0, 0]),
      kin_netProductionRateTDerivatives = (\<lambda>sv st. Inr [0, 0])\<rparr>"

definition example_wall :: Wall where
  "example_wall =
     \<lparr>w_surfSpecies = [''PT(S)'', ''H(S)''],
      w_initCoverages = [1 / 2, 1 / 2],
      w_coverages = [1 / 2, 1 / 2],
      w_vdot = (\<lambda>t. Inr 0),
      w_Q = (\<lambda>t. Inr 0),
      w_surface = (\<lambda>t sv. Inr ([0, 0], [0, 0], 0))\<rparr>"

definition example_reactor :: Reactor where
  "example_reactor =
     \<lparr>m_thermo = Some example_gas,
      m_kin = Some example_kinetics,
      m_nsp = 2,
      m_state = \<lparr>st_T = 300, st_rho = 2, st_Y = [1 / 4, 3 / 4]\<rparr>,
      m_mass = 4, m_vol = 2, m_vdot = 0, m_Q = 0,
      m_enthalpy = 300, m_pressure = 600, m_intEnergy = 150,
      m_chem = True, m_energy = True,
      m_uk = [0, 0], m_wdot = [0, 0], m_sdot = [0, 0], m_work = [0, 0],
      m_inlet = [], m_outlet = [], m_wall = [],
      m_sensValues = [1], m_sensSaved = [1],
      m_perturb = (\<lambda>v p. v * p)\<rparr>"

definition empty_reactor :: Reactor where
  "empty_reactor = example_reactor\<lparr>m_thermo := None\<rparr>"

definition walled_reactor :: Reactor where
  "walled_reactor = example_reactor\<lparr>m_wall := [example_wall]\<rparr>"

definition failing_reactor :: Reactor where
  "failing_reactor = example_reactor\<lparr>m_kin := Some failing_kinetics\<rparr>"

definition idle_reactor :: Reactor where
  "idle_reactor = example_reactor\<lparr>m_kin := Some idle_kinetics\<rparr>"

text \<open>Chemistry switched off, the production-rate buffer holding zeros.\<close>

definition frozen_reactor :: Reactor where
  "frozen_reactor = example_reactor\<lparr>m_chem := False\<rparr>"

definition example_y :: "nat \<Rightarrow> double" where
  "example_y = (\<lambda>i. 0)(0 := 4, 1 := 2, 2 := 300, 3 := 1 / 4, 4 := 3 / 4)"

definition other_y :: "nat \<Rightarrow> double" where
  "other_y = (\<lambda>i. 7)"

definition zero_buffer :: "nat \<Rightarrow> double" where
  "zero_buffer = (\<lambda>i. 0)"

definition unit_params :: "nat \<Rightarrow> double" where
  "unit_params = (\<lambda>i. 1)"

definition double_params :: "nat \<Rightarrow> double" where
  "double_params = (\<lambda>i. 2)"

definition zero_jacobian :: "nat \<Rightarrow> nat \<Rightarrow> double" where
  "zero_jacobian = (\<lambda>i j. 0)"

definition example_jacobian :: "nat \<Rightarrow> nat \<Rightarrow> double" where
  "example_jacobian = (\<lambda>i j. 5)"

definition no_name :: "nat \<Rightarrow> error + string" where
  "no_name = (\<lambda>k. Inl (CanteraError ''Reactor::componentName'' ''Index is out of bounds.''))"

text \<open>
  A reactor whose evaluator does not hold the state of the snapshot: the evaluator is
  at density 1, temperature 500 and mass fractions \<open>1 / 2\<close>, the snapshot is the one of
  \<open>example_reactor\<close>.
\<close>

definition hot_gas :: ThermoPhase where
  "hot_gas = example_gas\<lparr>tp_state := \<lparr>st_T = 500, st_rho = 1, st_Y = [1 / 2, 1 / 2]\<rparr>\<rparr>"

definition stale_reactor :: Reactor where
  "stale_reactor = example_reactor\<lparr>m_thermo := Some hot_gas\<rparr>"

text \<open>
  Kinetics that produce the first species above the temperature 400 and nothing below,
  and a reactor at the temperature 500 with these kinetics, chemistry switched off and
  the production-rate buffer holding zeros. \<open>cooled_reactor\<close> is this reactor after one
  evaluation of the Jacobian and an \<^verbatim>\<open>updateState\<close> that brings it to the temperature 300.
\<close>

definition thermal_kinetics :: Kinetics where
  "thermal_kinetics =
     \<lparr>kin_netProductionRates = (\<lambda>sv st. Inr (if 400 < st_T st then [1, 0] else [0, 0])),
      kin_netProductionRateTDerivatives = (\<lambda>sv st. Inr [0, 0])\<rparr>"

definition heated_gas :: ThermoPhase where
  "heated_gas = example_gas\<lparr>tp_state := \<lparr>st_T = 500, st_rho = 2, st_Y = [1 / 4, 3 / 4]\<rparr>\<rparr>"

definition hot_frozen_reactor :: Reactor where
  "hot_frozen_reactor =
     example_reactor\<lparr>m_thermo := Some heated_gas,
                      m_kin := Some thermal_kinetics,
                      m_state := \<lparr>st_T = 500, st_rho = 2, st_Y = [1 / 4, 3 / 4]\<rparr>,
                      m_chem := False\<rparr>"

definition cooled_reactor :: Reactor where
  "cooled_reactor =
     snd (updateState
            (fst (snd (evalJacEqs 8314 hot_frozen_reactor 0 example_y zero_jacobian 0)))
            example_y)"

section \<open>Properties\<close>

subsection \<open>Evaluation of the examples\<close>

lemmas example_defs = example_gas_def solid_phase_def example_kinetics_def failing_kinetics_def
  idle_kinetics_def example_wall_def example_reactor_def empty_reactor_def walled_reactor_def
  failing_reactor_def idle_reactor_def frozen_reactor_def example_y_def other_y_def
  zero_buffer_def unit_params_def double_params_def zero_jacobian_def example_jacobian_def
  no_name_def hot_gas_def stale_reactor_def thermal_kinetics_def heated_gas_def
  hot_frozen_reactor_def

lemmas thermo_defs = nSpecies_def temperature_def density_def massFractions_def saveState_def
  restoreState_def getMassFractions_def setMassFractions_NoNorm_def setState_TR_def

lemmas evalEqs_defs = evalEqs_def evalEqs_body_def evalBalances_def speciesLoop_def
  speciesTerm_def fetchNetProductionRates_def evalWalls_def evalSurfaces_def
  applySensitivity_def resetSensitivity_def restoreState_def store_vec_def massFractions_def

lemma upt_0_2: "[0..<2] = [0, Suc 0]"
  by (simp add: upt_rec)

subsection \<open>Attaching the property evaluator\<close>

text \<open>
  Claim C2. Attaching a property evaluator whose type tag is not \<open>''IdealGas''\<close> raises the
  error of \<^verbatim>\<open>setThermoMgr\<close> and leaves the reactor as it was, so a reference that was
  unset stays unset; attaching one whose tag is \<open>''IdealGas''\<close> raises nothing and sets
  the reference to it.
\<close>

theorem setThermoMgr_gate:
  "(tp_type thermo \<noteq> ''IdealGas'' \<longrightarrow>
      setThermoMgr r thermo =
        (Some (CanteraError ''IdealGasReactor::setThermoMgr'' ''Incompatible phase type provided''), r))
   \<and> (tp_type thermo \<noteq> ''IdealGas'' \<and> m_thermo r = None \<longrightarrow>
        m_thermo (snd (setThermoMgr r thermo)) = None)
   \<and> (tp_type thermo = ''IdealGas'' \<longrightarrow>
        fst (setThermoMgr r thermo) = None
        \<and> m_thermo (snd (setThermoMgr r thermo)) = Some thermo)"
  by (simp add: setThermoMgr_def Reactor_setThermoMgr_def)

theorem setThermoMgr_gate_witness:
  "tp_type solid_phase \<noteq> ''IdealGas''
   \<and> m_thermo empty_reactor = None
   \<and> setThermoMgr empty_reactor solid_phase =
       (Some (CanteraError ''IdealGasReactor::setThermoMgr'' ''Incompatible phase type provided''),
        empty_reactor)
   \<and> m_thermo (snd (setThermoMgr empty_reactor solid_phase)) = None
   \<and> tp_type example_gas = ''IdealGas''
   \<and> fst (setThermoMgr empty_reactor example_gas) = None
   \<and> m_thermo (snd (setThermoMgr empty_reactor example_gas)) = Some example_gas"
proof -
  have solid: "tp_type solid_phase \<noteq> ''IdealGas''"
    by (simp add: solid_phase_def example_gas_def)
  have gas: "tp_type example_gas = ''IdealGas''"
    by (simp add: example_gas_def)
  have empty: "m_thermo empty_reactor = None"
    by (simp add: empty_reactor_def)
  show ?thesis
    using solid gas empty setThermoMgr_gate [of solid_phase empty_reactor]
      setThermoMgr_gate [of example_gas empty_reactor]
    by simp
qed

subsection \<open>The state vector\<close>

lemma surfaceInitialConditions_below:
  "i < loc \<Longrightarrow> surfaceInitialConditions ws y loc i = y i"
  by (induction ws arbitrary: y loc) (auto simp: write_block_def)

lemma surfaceInitialConditions_block:
  "i < length (coverageLayout ws) \<Longrightarrow>
     surfaceInitialConditions ws y loc (loc + i) = coverageLayout ws ! i"
proof (induction ws arbitrary: y loc i)
  case Nil
  then show ?case by (simp add: coverageLayout_def)
next
  case (Cons w ws)
  let ?n = "nSurfSpecies w"
  have split: "coverageLayout (w # ws)
      = map (\<lambda>k. w_initCoverages w ! k) [0..<?n] @ coverageLayout ws"
    by (simp add: coverageLayout_def)
  show ?case
  proof (cases "i < ?n")
    case True
    then have "surfaceInitialConditions (w # ws) y loc (loc + i)
        = write_block (w_initCoverages w) ?n y loc (loc + i)"
      by (simp add: surfaceInitialConditions_below)
    also have "\<dots> = w_initCoverages w ! i"
      using True by (simp add: write_block_def)
    finally show ?thesis using True by (simp add: split nth_append)
  next
    case False
    then have i: "loc + i = (loc + ?n) + (i - ?n)" by simp
    from False Cons.prems have "i - ?n < length (coverageLayout ws)"
      by (simp add: split)
    from Cons.IH [OF this]
    have "surfaceInitialConditions ws (write_block (w_initCoverages w) ?n y loc)
        (loc + ?n) ((loc + ?n) + (i - ?n)) = coverageLayout ws ! (i - ?n)" .
    with i False show ?thesis by (simp add: split nth_append)
  qed
qed

lemma getState_unattached:
  "m_thermo r = None \<Longrightarrow>
     getState r y = (Some (CanteraError ''getState'' ''Error: reactor is empty.''), r, y)"
  by (simp add: getState_def)

lemma getState_attached:
  "m_thermo r = Some th \<Longrightarrow>
     getState r y =
       (None,
        r\<lparr>m_thermo := Some (restoreState th (m_state r)),
          m_mass := density (restoreState th (m_state r)) * m_vol r\<rparr>,
        surfaceInitialConditions (m_wall r)
          (getMassFractions (restoreState th (m_state r))
             (y(0 := density (restoreState th (m_state r)) * m_vol r, 1 := m_vol r,
                2 := temperature (restoreState th (m_state r)))) 3) (m_nsp r + 3))"
  by (simp add: getState_def Let_def getSurfaceInitialConditions_def)

lemma nSpecies_restoreState: "nSpecies (restoreState th s) = nSpecies th"
  by (simp add: nSpecies_def restoreState_def)

lemma getState_head:
  assumes "m_thermo r = Some th"
  shows "snd (snd (getState r y)) 0 = density (restoreState th (m_state r)) * m_vol r"
    and "snd (snd (getState r y)) (Suc 0) = m_vol r"
    and "snd (snd (getState r y)) 2 = temperature (restoreState th (m_state r))"
  by (simp_all add: getState_attached [OF assms] surfaceInitialConditions_below
      getMassFractions_def write_block_def)

lemma getState_entries:
  assumes "m_thermo r = Some th" and "nSpecies th = m_nsp r"
  shows "snd (snd (getState r y)) 0 = density (restoreState th (m_state r)) * m_vol r"
    and "snd (snd (getState r y)) (Suc 0) = m_vol r"
    and "snd (snd (getState r y)) 2 = temperature (restoreState th (m_state r))"
    and "k < m_nsp r \<Longrightarrow>
           snd (snd (getState r y)) (3 + k) = massFractions (restoreState th (m_state r)) ! k"
    and "i < length (coverageLayout (m_wall r)) \<Longrightarrow>
           snd (snd (getState r y)) (3 + m_nsp r + i) = coverageLayout (m_wall r) ! i"
proof -
  have surf: "surfaceInitialConditions (m_wall r) z (m_nsp r + 3) (3 + m_nsp r + i)
      = coverageLayout (m_wall r) ! i" if "i < length (coverageLayout (m_wall r))" for z
    using surfaceInitialConditions_block [OF that, of z "m_nsp r + 3"]
    by (simp add: add.commute)
  note ev = getState_attached [OF assms(1)] surfaceInitialConditions_below
    getMassFractions_def write_block_def nSpecies_restoreState assms(2)
  show "snd (snd (getState r y)) 0 = density (restoreState th (m_state r)) * m_vol r"
    by (simp add: ev)
  show "snd (snd (getState r y)) (Suc 0) = m_vol r"
    by (simp add: ev)
  show "snd (snd (getState r y)) 2 = temperature (restoreState th (m_state r))"
    by (simp add: ev)
  show "snd (snd (getState r y)) (3 + k) = massFractions (restoreState th (m_state r)) ! k"
    if "k < m_nsp r"
    using that by (simp add: ev)
  show "snd (snd (getState r y)) (3 + m_nsp r + i) = coverageLayout (m_wall r) ! i"
    if "i < length (coverageLayout (m_wall r))"
    using that by (simp add: getState_attached [OF assms(1)] surf)
qed

text \<open>
  Claim C3. \<^verbatim>\<open>getState\<close> raises an error exactly when no property evaluator is attached,
  and then the buffer \<open>y\<close> is as it was. With an evaluator attached the buffer holds: at
  0 the density of the evaluator (restored to the reactor's snapshot, as line 33 does)
  times the volume, at 1 the volume, at 2 the temperature; and when the species of the
  evaluator are the \<open>K = m_nsp r\<close> species the reactor counts, at \<open>3 .. 3 + K\<close> the mass
  fractions, and from \<open>3 + K\<close> on the initial coverages of the walls, wall after wall,
  each block as long as the wall's surface has species.
\<close>

theorem getState_layout:
  "(fst (getState r y) \<noteq> None \<longleftrightarrow> m_thermo r = None)
   \<and> (m_thermo r = None \<longrightarrow> snd (snd (getState r y)) = y)
   \<and> (m_thermo r = Some th \<longrightarrow>
        (let th' = restoreState th (m_state r); y' = snd (snd (getState r y))
         in y' 0 = density th' * m_vol r
            \<and> y' 1 = m_vol r
            \<and> y' 2 = temperature th'))
   \<and> (m_thermo r = Some th \<and> nSpecies th = m_nsp r \<longrightarrow>
        (let th' = restoreState th (m_state r); y' = snd (snd (getState r y))
         in (\<forall>k<m_nsp r. y' (3 + k) = massFractions th' ! k)
            \<and> (\<forall>i<length (coverageLayout (m_wall r)).
                  y' (3 + m_nsp r + i) = coverageLayout (m_wall r) ! i)))"
proof (cases "m_thermo r")
  case None
  then show ?thesis by (simp add: getState_unattached)
next
  case (Some th0)
  then have ok: "fst (getState r y) = None"
    by (simp add: getState_attached)
  show ?thesis
  proof (intro conjI impI)
    show "(fst (getState r y) \<noteq> None) = (m_thermo r = None)"
      using Some ok by simp
    show "snd (snd (getState r y)) = y" if "m_thermo r = None"
      using that Some by simp
    show "let th' = restoreState th (m_state r); y' = snd (snd (getState r y))
          in y' 0 = density th' * m_vol r
             \<and> y' 1 = m_vol r
             \<and> y' 2 = temperature th'"
      if h: "m_thermo r = Some th"
      unfolding Let_def One_nat_def
      using getState_head [where r = r and th = th and y = y] h by blast
    show "let th' = restoreState th (m_state r); y' = snd (snd (getState r y))
          in (\<forall>k<m_nsp r. y' (3 + k) = massFractions th' ! k)
             \<and> (\<forall>i<length (coverageLayout (m_wall r)).
                   y' (3 + m_nsp r + i) = coverageLayout (m_wall r) ! i)"
      if h: "m_thermo r = Some th \<and> nSpecies th = m_nsp r"
      unfolding Let_def
      using getState_entries [where r = r and th = th and y = y] h by blast
  qed
qed

theorem getState_layout_witness:
  "m_thermo empty_reactor = None
   \<and> fst (getState empty_reactor example_y) \<noteq> None
   \<and> snd (snd (getState empty_reactor example_y)) = example_y
   \<and> m_thermo walled_reactor = Some example_gas
   \<and> nSpecies example_gas = m_nsp walled_reactor
   \<and> fst (getState walled_reactor zero_buffer) = None
   \<and> snd (snd (getState walled_reactor zero_buffer)) 0 = 4
   \<and> snd (snd (getState walled_reactor zero_buffer)) 1 = 2
   \<and> snd (snd (getState walled_reactor zero_buffer)) 2 = 300
   \<and> snd (snd (getState walled_reactor zero_buffer)) 3 = 1 / 4
   \<and> snd (snd (getState walled_reactor zero_buffer)) 4 = 3 / 4
   \<and> snd (snd (getState walled_reactor zero_buffer)) 5 = 1 / 2
   \<and> snd (snd (getState walled_reactor zero_buffer)) 6 = 1 / 2"
proof -
  have empty: "m_thermo empty_reactor = None"
    by (simp add: empty_reactor_def)
  have att: "m_thermo walled_reactor = Some example_gas"
    and nsp: "nSpecies example_gas = m_nsp walled_reactor"
    and K: "m_nsp walled_reactor = 2"
    and vol: "m_vol walled_reactor = 2"
    by (simp_all add: walled_reactor_def example_reactor_def example_gas_def nSpecies_def)
  have th: "density (restoreState example_gas (m_state walled_reactor)) = 2"
    "temperature (restoreState example_gas (m_state walled_reactor)) = 300"
    "massFractions (restoreState example_gas (m_state walled_reactor)) = [1 / 4, 3 / 4]"
    by (simp_all add: walled_reactor_def example_reactor_def example_gas_def thermo_defs)
  have cov: "coverageLayout (m_wall walled_reactor) = [1 / 2, 1 / 2]"
    by (simp add: walled_reactor_def example_reactor_def example_wall_def coverageLayout_def
        nSurfSpecies_def upt_0_2)
  from getState_layout [of empty_reactor example_y example_gas] empty
  have a: "fst (getState empty_reactor example_y) \<noteq> None"
    "snd (snd (getState empty_reactor example_y)) = example_y"
    by simp_all
  from getState_layout [of walled_reactor zero_buffer example_gas] att nsp
  have b: "fst (getState walled_reactor zero_buffer) = None"
    "snd (snd (getState walled_reactor zero_buffer)) 0 = 4"
    "snd (snd (getState walled_reactor zero_buffer)) 1 = 2"
    "snd (snd (getState walled_reactor zero_buffer)) 2 = 300"
    "\<forall>k<2. snd (snd (getState walled_reactor zero_buffer)) (3 + k) = [1 / 4, 3 / 4] ! k"
    "\<forall>i<2. snd (snd (getState walled_reactor zero_buffer)) (3 + 2 + i) = [1 / 2, 1 / 2] ! i"
    by (simp_all add: Let_def th cov K vol)
  from b(5) [rule_format, of 0] b(5) [rule_format, of 1]
    b(6) [rule_format, of 0] b(6) [rule_format, of 1]
  have e: "snd (snd (getState walled_reactor zero_buffer)) 3 = 1 / 4"
    "snd (snd (getState walled_reactor zero_buffer)) 4 = 3 / 4"
    "snd (snd (getState walled_reactor zero_buffer)) 5 = 1 / 2"
    "snd (snd (getState walled_reactor zero_buffer)) 6 = 1 / 2"
    by simp_all
  show ?thesis
    using empty att nsp a b(1-4) e by simp
qed

lemma read_block_nth: "k < n \<Longrightarrow> read_block y off n ! k = y (off + k)"
  by (simp add: read_block_def)

lemma updateState_thermo:
  "m_thermo r = Some th \<Longrightarrow>
     m_thermo (snd (updateState r y))
       = Some (setState_TR (setMassFractions_NoNorm th y 3) (y 2) (y 0 / y 1))"
  by (simp add: updateState_def Let_def updateSurfaceState_def split: sum.splits)

lemma getState_in_sync:
  "m_thermo r \<noteq> None \<Longrightarrow> in_sync (fst (snd (getState r y)))"
  by (auto simp: getState_attached in_sync_def saveState_def restoreState_def)

lemma updateState_in_sync:
  "fst (updateState r y) = None \<Longrightarrow> in_sync (snd (updateState r y))"
  by (auto simp: updateState_def Let_def updateSurfaceState_def in_sync_def
      split: option.splits sum.splits)

lemma roundtrip_snapshot:
  assumes att: "m_thermo r = Some th"
    and nsp: "nSpecies th = m_nsp r"
  shows "\<exists>th2. m_thermo (snd (updateState (fst (snd (getState r y))) (snd (snd (getState r y)))))
           = Some th2
     \<and> density th2 = snd (snd (getState r y)) 0 / snd (snd (getState r y)) 1
     \<and> temperature th2 = st_T (m_state r)
     \<and> (\<forall>k<nSpecies th. massFractions th2 ! k = st_Y (m_state r) ! k)"
proof -
  let ?th = "restoreState th (m_state r)"
  let ?r1 = "fst (snd (getState r y))" and ?y1 = "snd (snd (getState r y))"
  have r1: "m_thermo ?r1 = Some ?th"
    using att by (simp add: getState_attached)
  note y1 = getState_entries [OF att nsp, where y = y]
  let ?th2 = "setState_TR (setMassFractions_NoNorm ?th ?y1 3) (?y1 2) (?y1 0 / ?y1 1)"
  have "m_thermo (snd (updateState ?r1 ?y1)) = Some ?th2"
    by (rule updateState_thermo [OF r1])
  moreover have "density ?th2 = ?y1 0 / ?y1 1"
    by (simp add: setState_TR_def density_def)
  moreover have "temperature ?th2 = st_T (m_state r)"
    by (simp add: y1 setState_TR_def temperature_def restoreState_def)
  moreover have "\<forall>k<nSpecies th. massFractions ?th2 ! k = st_Y (m_state r) ! k"
  proof -
    have K: "nSpecies ?th = m_nsp r"
      using nsp by (simp add: nSpecies_restoreState)
    have Y: "massFractions ?th = st_Y (m_state r)"
      by (simp add: massFractions_def restoreState_def)
    have "massFractions ?th2 = read_block ?y1 3 (m_nsp r)"
      using K by (simp add: setState_TR_def setMassFractions_NoNorm_def massFractions_def)
    then show ?thesis
      using nsp Y by (simp add: read_block_nth y1(4))
  qed
  ultimately show ?thesis by blast
qed

text \<open>
  Claim C4, as the code has it. Take a reactor with a property evaluator attached whose
  species are the species the reactor counts. \<^verbatim>\<open>getState\<close> followed by \<^verbatim>\<open>updateState\<close> on the
  vector \<open>y'\<close> it produced leaves the evaluator with the temperature and the mass
  fraction of every species of the reactor's snapshot, which line 33 restores into the
  evaluator first; they are copied, no arithmetic is done on them. The density it
  leaves is the quotient \<open>y' 0 / y' 1\<close> of line 67, where \<open>y' 0\<close> is the product of the
  snapshot's density and the volume (line 36) and \<open>y' 1\<close> is the volume: the statement
  does not cancel the volume, which doubles do only up to rounding. The temperature
  and the mass fractions are those the evaluator had before the round trip when the
  evaluator held the state of the snapshot (\<open>in_sync\<close>). For an evaluator that did not,
  the claim as stated does not hold, as the example after this theorem shows.
\<close>

theorem getState_updateState_roundtrip:
  assumes "m_thermo r = Some th"
    and "nSpecies th = m_nsp r"
  shows "\<exists>th2. m_thermo (snd (updateState (fst (snd (getState r y))) (snd (snd (getState r y)))))
           = Some th2
     \<and> temperature th2 = st_T (m_state r)
     \<and> (\<forall>k<nSpecies th. massFractions th2 ! k = st_Y (m_state r) ! k)
     \<and> density th2 = snd (snd (getState r y)) 0 / snd (snd (getState r y)) 1
     \<and> snd (snd (getState r y)) 0 = st_rho (m_state r) * m_vol r
     \<and> snd (snd (getState r y)) 1 = m_vol r
     \<and> (in_sync r \<longrightarrow>
           temperature th2 = temperature th
           \<and> (\<forall>k<nSpecies th. massFractions th2 ! k = massFractions th ! k))"
proof -
  from roundtrip_snapshot [OF assms, of y] obtain th2 where th2:
    "m_thermo (snd (updateState (fst (snd (getState r y))) (snd (snd (getState r y))))) = Some th2"
    "density th2 = snd (snd (getState r y)) 0 / snd (snd (getState r y)) 1"
    "temperature th2 = st_T (m_state r)"
    "\<forall>k<nSpecies th. massFractions th2 ! k = st_Y (m_state r) ! k"
    by blast
  have y0: "snd (snd (getState r y)) 0 = st_rho (m_state r) * m_vol r"
    by (simp add: getState_head(1) [OF assms(1)] density_def restoreState_def)
  have y1: "snd (snd (getState r y)) 1 = m_vol r"
    by (simp add: getState_head(2) [OF assms(1)])
  have sync: "temperature th2 = temperature th
      \<and> (\<forall>k<nSpecies th. massFractions th2 ! k = massFractions th ! k)" if "in_sync r"
  proof -
    from that assms(1) have "tp_state th = m_state r"
      by (simp add: in_sync_def saveState_def)
    then have "st_T (m_state r) = temperature th" "st_Y (m_state r) = massFractions th"
      by (simp_all add: temperature_def massFractions_def)
    with th2(3,4) show ?thesis by simp
  qed
  from th2 y0 y1 sync show ?thesis by blast
qed

theorem getState_updateState_roundtrip_witness:
  "m_thermo walled_reactor = Some example_gas
   \<and> nSpecies example_gas = m_nsp walled_reactor
   \<and> in_sync walled_reactor
   \<and> temperature example_gas = 300
   \<and> massFractions example_gas = [1 / 4, 3 / 4]
   \<and> snd (snd (getState walled_reactor zero_buffer)) 0 = 4
   \<and> snd (snd (getState walled_reactor zero_buffer)) 1 = 2
   \<and> (\<exists>th2. m_thermo (snd (updateState (fst (snd (getState walled_reactor zero_buffer)))
                                         (snd (snd (getState walled_reactor zero_buffer)))))
              = Some th2
        \<and> temperature th2 = 300
        \<and> massFractions th2 ! 0 = 1 / 4
        \<and> massFractions th2 ! 1 = 3 / 4
        \<and> density th2 = 4 / 2)"
proof -
  have att: "m_thermo walled_reactor = Some example_gas"
    and nsp: "nSpecies example_gas = m_nsp walled_reactor"
    and sync: "in_sync walled_reactor"
    by (simp_all add: walled_reactor_def example_reactor_def example_gas_def nSpecies_def
        in_sync_def saveState_def)
  have gas: "temperature example_gas = 300" "massFractions example_gas = [1 / 4, 3 / 4]"
    "nSpecies example_gas = 2"
    by (simp_all add: example_gas_def thermo_defs)
  have snap: "st_rho (m_state walled_reactor) * m_vol walled_reactor = 4"
    "m_vol walled_reactor = 2"
    by (simp_all add: walled_reactor_def example_reactor_def)
  from getState_updateState_roundtrip [OF att nsp, of zero_buffer] sync
  obtain th2 where th2:
    "m_thermo (snd (updateState (fst (snd (getState walled_reactor zero_buffer)))
                                (snd (snd (getState walled_reactor zero_buffer))))) = Some th2"
    "density th2 = snd (snd (getState walled_reactor zero_buffer)) 0
                     / snd (snd (getState walled_reactor zero_buffer)) 1"
    "snd (snd (getState walled_reactor zero_buffer)) 0
       = st_rho (m_state walled_reactor) * m_vol walled_reactor"
    "snd (snd (getState walled_reactor zero_buffer)) 1 = m_vol walled_reactor"
    "temperature th2 = temperature example_gas"
    "\<forall>k<nSpecies example_gas. massFractions th2 ! k = massFractions example_gas ! k"
    by blast
  have y: "snd (snd (getState walled_reactor zero_buffer)) 0 = 4"
    "snd (snd (getState walled_reactor zero_buffer)) 1 = 2"
    using th2(3,4) snap by simp_all
  have rho: "density th2 = 4 / 2"
    using th2(2) y by simp
  have T: "temperature th2 = 300"
    using th2(5) gas by simp
  from th2(6) have Y: "massFractions th2 ! 0 = 1 / 4" "massFractions th2 ! 1 = 3 / 4"
    by (simp_all add: gas)
  from att nsp sync gas(1,2) y th2(1) T Y rho show ?thesis
    by blast
qed

text \<open>
  Claim C4 as stated fails for an evaluator that does not hold the state of the
  snapshot. \<open>stale_reactor\<close> has an evaluator attached, the mass 4 and the volume 2. Its
  evaluator is at density 1, temperature 500 and mass fractions \<open>1 / 2\<close> and \<open>1 / 2\<close>;
  its snapshot holds density 2, temperature 300 and mass fractions \<open>1 / 4\<close> and
  \<open>3 / 4\<close>. Line 33 restores the snapshot, and after the round trip the evaluator is
  \<open>example_gas\<close>, at density 2, temperature 300 and mass fractions \<open>1 / 4\<close> and \<open>3 / 4\<close>.
\<close>

theorem getState_updateState_restores_snapshot:
  "m_thermo stale_reactor = Some hot_gas
   \<and> nSpecies hot_gas = m_nsp stale_reactor
   \<and> 0 < m_mass stale_reactor
   \<and> 0 < m_vol stale_reactor
   \<and> density hot_gas = 1
   \<and> temperature hot_gas = 500
   \<and> massFractions hot_gas = [1 / 2, 1 / 2]
   \<and> m_thermo (snd (updateState (fst (snd (getState stale_reactor zero_buffer)))
                                 (snd (snd (getState stale_reactor zero_buffer)))))
       = Some example_gas
   \<and> density example_gas = 2
   \<and> temperature example_gas = 300
   \<and> massFractions example_gas = [1 / 4, 3 / 4]"
proof -
  have y: "snd (snd (getState stale_reactor zero_buffer)) 0 = 4"
    "snd (snd (getState stale_reactor zero_buffer)) (Suc 0) = 2"
    "snd (snd (getState stale_reactor zero_buffer)) 2 = 300"
    "snd (snd (getState stale_reactor zero_buffer)) 3 = 1 / 4"
    "snd (snd (getState stale_reactor zero_buffer)) 4 = 3 / 4"
    by (simp_all add: example_defs getState_def Let_def getSurfaceInitialConditions_def
        write_block_def thermo_defs)
  have r1: "m_thermo (fst (snd (getState stale_reactor zero_buffer))) = Some example_gas"
    by (simp add: example_defs getState_def Let_def thermo_defs)
  have "setState_TR (setMassFractions_NoNorm example_gas
            (snd (snd (getState stale_reactor zero_buffer))) 3)
          (snd (snd (getState stale_reactor zero_buffer)) 2)
          (snd (snd (getState stale_reactor zero_buffer)) 0
             / snd (snd (getState stale_reactor zero_buffer)) 1) = example_gas"
    by (simp add: y setState_TR_def setMassFractions_NoNorm_def read_block_def nSpecies_def
        upt_0_2 example_gas_def)
  with updateState_thermo [OF r1, of "snd (snd (getState stale_reactor zero_buffer))"]
  have after: "m_thermo (snd (updateState (fst (snd (getState stale_reactor zero_buffer)))
                                          (snd (snd (getState stale_reactor zero_buffer)))))
      = Some example_gas"
    by simp
  show ?thesis
    by (simp add: after) (simp add: example_defs thermo_defs)
qed

subsection \<open>Component names\<close>

lemma index_from_found:
  "nm \<in> set xs \<Longrightarrow>
     k \<le> index_from xs nm k \<and> index_from xs nm k < k + length xs
     \<and> xs ! (index_from xs nm k - k) = nm"
proof (induction xs nm k rule: index_from.induct)
  case (1 nm k)
  then show ?case by simp
next
  case (2 x xs nm k)
  show ?case
  proof (cases "x = nm")
    case True
    then show ?thesis by simp
  next
    case False
    with 2 have "nm \<in> set xs" by simp
    with 2 False have IH: "Suc k \<le> index_from xs nm (Suc k)
        \<and> index_from xs nm (Suc k) < Suc k + length xs
        \<and> xs ! (index_from xs nm (Suc k) - Suc k) = nm"
      by simp
    then have "index_from xs nm (Suc k) - k = Suc (index_from xs nm (Suc k) - Suc k)"
      by arith
    with IH False show ?thesis by simp
  qed
qed

lemma index_from_missing: "nm \<notin> set xs \<Longrightarrow> index_from xs nm k = npos"
  by (induction xs nm k rule: index_from.induct) auto

lemma speciesIndex_found:
  assumes "s \<in> set (gasSpeciesNames r)" and "length (gasSpeciesNames r) \<le> npos"
  shows "speciesIndex r s < length (gasSpeciesNames r) \<and> speciesIndex r s \<noteq> npos
     \<and> gasSpeciesNames r ! speciesIndex r s = s"
  using index_from_found [OF assms(1), of 0] assms(2) by (simp add: speciesIndex_def)

text \<open>
  Claim C7. Let the gas have at most \<^verbatim>\<open>npos\<close> species, so that every species index is
  a \<^verbatim>\<open>size_t\<close> other than the sentinel. For every name \<open>s\<close> of a gas species,
  \<^verbatim>\<open>componentIndex\<close> is the species index plus 3, also when \<open>s\<close> is one of the three
  reserved names, and \<^verbatim>\<open>componentName\<close> of that index is \<open>s\<close>. When they are not names of
  gas species, \<open>''mass''\<close>, \<open>''volume''\<close> and \<open>''temperature''\<close> have the indices 0, 1 and
  2. A name that is neither has the index \<^verbatim>\<open>npos\<close>.
\<close>

theorem componentIndex_componentName:
  assumes "length (gasSpeciesNames r) \<le> npos"
  shows "(s \<in> set (gasSpeciesNames r) \<longrightarrow>
            componentIndex r s = speciesIndex r s + 3
            \<and> speciesIndex r s < length (gasSpeciesNames r)
            \<and> componentName other r (componentIndex r s) = Inr s)
     \<and> (''mass'' \<notin> set (gasSpeciesNames r) \<longrightarrow> componentIndex r ''mass'' = 0)
     \<and> (''volume'' \<notin> set (gasSpeciesNames r) \<longrightarrow> componentIndex r ''volume'' = 1)
     \<and> (''temperature'' \<notin> set (gasSpeciesNames r) \<longrightarrow> componentIndex r ''temperature'' = 2)
     \<and> (s \<notin> set (gasSpeciesNames r) \<and> s \<noteq> ''mass'' \<and> s \<noteq> ''volume'' \<and> s \<noteq> ''temperature''
          \<longrightarrow> componentIndex r s = npos)"
proof -
  have found: "componentIndex r s = speciesIndex r s + 3
      \<and> speciesIndex r s < length (gasSpeciesNames r)
      \<and> componentName other r (componentIndex r s) = Inr s"
    if "s \<in> set (gasSpeciesNames r)"
  proof -
    from speciesIndex_found [OF that assms]
    have k: "speciesIndex r s < length (gasSpeciesNames r)" "speciesIndex r s \<noteq> npos"
      "gasSpeciesNames r ! speciesIndex r s = s"
      by simp_all
    then have "componentIndex r s = speciesIndex r s + 3"
      by (simp add: componentIndex_def)
    with k show ?thesis
      by (simp add: componentName_def Reactor_componentName_def)
  qed
  have missing: "speciesIndex r nm = npos" if "nm \<notin> set (gasSpeciesNames r)" for nm
    using that by (simp add: speciesIndex_def index_from_missing)
  show ?thesis
    using found by (auto simp: componentIndex_def missing)
qed

theorem componentIndex_componentName_witness:
  "length (gasSpeciesNames example_reactor) \<le> npos
   \<and> ''O2'' \<in> set (gasSpeciesNames example_reactor)
   \<and> componentIndex example_reactor ''O2'' = 4
   \<and> componentName no_name example_reactor (componentIndex example_reactor ''O2'') = Inr ''O2''
   \<and> ''mass'' \<notin> set (gasSpeciesNames example_reactor)
   \<and> componentIndex example_reactor ''mass'' = 0
   \<and> ''volume'' \<notin> set (gasSpeciesNames example_reactor)
   \<and> componentIndex example_reactor ''volume'' = 1
   \<and> ''temperature'' \<notin> set (gasSpeciesNames example_reactor)
   \<and> componentIndex example_reactor ''temperature'' = 2
   \<and> ''not-a-species'' \<notin> set (gasSpeciesNames example_reactor)
   \<and> componentIndex example_reactor ''not-a-species'' = npos"
proof -
  have names: "gasSpeciesNames example_reactor = [''H2'', ''O2'']"
    by (simp add: gasSpeciesNames_def example_reactor_def example_gas_def)
  have len: "length (gasSpeciesNames example_reactor) \<le> npos"
    by (simp add: names npos_def)
  have k: "speciesIndex example_reactor ''O2'' + 3 = 4"
    by (simp add: speciesIndex_def names)
  have o2: "''O2'' \<in> set (gasSpeciesNames example_reactor)"
    and reserved: "''mass'' \<notin> set (gasSpeciesNames example_reactor)"
      "''volume'' \<notin> set (gasSpeciesNames example_reactor)"
      "''temperature'' \<notin> set (gasSpeciesNames example_reactor)"
    and unknown: "''not-a-species'' \<notin> set (gasSpeciesNames example_reactor)
      \<and> ''not-a-species'' \<noteq> ''mass'' \<and> ''not-a-species'' \<noteq> ''volume''
      \<and> ''not-a-species'' \<noteq> ''temperature''"
    by (simp_all add: names)
  note known = componentIndex_componentName [OF len, of "''O2''" no_name]
  note other = componentIndex_componentName [OF len, of "''not-a-species''" no_name]
  from known o2 have a: "componentIndex example_reactor ''O2''
      = speciesIndex example_reactor ''O2'' + 3"
    "componentName no_name example_reactor (componentIndex example_reactor ''O2'') = Inr ''O2''"
    by blast+
  from known reserved have b: "componentIndex example_reactor ''mass'' = 0"
    "componentIndex example_reactor ''volume'' = 1"
    "componentIndex example_reactor ''temperature'' = 2"
    by blast+
  from other unknown have c: "componentIndex example_reactor ''not-a-species'' = npos"
    by blast
  from a(1) k have d: "componentIndex example_reactor ''O2'' = 4"
    by simp
  from len o2 d a(2) reserved b unknown c show ?thesis
    by blast
qed

subsection \<open>The derivatives\<close>

lemma fetchNetProductionRates_keeps:
  "fetchNetProductionRates r th = Inr r' \<Longrightarrow>
     m_sensValues r' = m_sensValues r \<and> m_sensSaved r' = m_sensSaved r
     \<and> m_wall r' = m_wall r \<and> m_inlet r' = m_inlet r \<and> m_outlet r' = m_outlet r
     \<and> m_nsp r' = m_nsp r \<and> m_mass r' = m_mass r"
  by (auto simp: fetchNetProductionRates_def split: if_splits option.splits sum.splits)

lemma evalWalls_keeps:
  "evalWalls r t = Inr r' \<Longrightarrow>
     m_sensValues r' = m_sensValues r \<and> m_sensSaved r' = m_sensSaved r
     \<and> m_wall r' = m_wall r \<and> m_inlet r' = m_inlet r \<and> m_outlet r' = m_outlet r
     \<and> m_nsp r' = m_nsp r \<and> m_wdot r' = m_wdot r \<and> m_mass r' = m_mass r"
  by (auto simp: evalWalls_def split: sum.splits)

lemma evalSurfaces_keeps:
  "evalSurfaces r t ydot off = (res, r', ydot') \<Longrightarrow>
     m_sensValues r' = m_sensValues r \<and> m_sensSaved r' = m_sensSaved r"
  by (auto simp: evalSurfaces_def split: sum.splits prod.splits)

lemma evalEqs_body_keeps:
  "evalEqs_body r th t ydot = (res, r', ydot') \<Longrightarrow>
     m_sensValues r' = m_sensValues r \<and> m_sensSaved r' = m_sensSaved r"
  by (auto simp: evalEqs_body_def Let_def split: sum.splits prod.splits
      dest!: fetchNetProductionRates_keeps evalWalls_keeps evalSurfaces_keeps)

lemma evalEqs_unfold:
  assumes "m_thermo r = Some th0"
    and "evalEqs_body (applySensitivity (r\<lparr>m_thermo := Some (restoreState th0 (m_state r))\<rparr>) params)
           (restoreState th0 (m_state r)) t ydot = (res, r2, ydot1)"
  shows "evalEqs r t y ydot params =
     (case res of
        Some e \<Rightarrow> (Some e, r2, ydot1)
      | None \<Rightarrow> (None, resetSensitivity r2 params, ydot1))"
  using assms by (simp add: evalEqs_def Let_def split: option.splits)

text \<open>
  What \<^verbatim>\<open>evalEqs\<close> leaves behind when a collaborator throws: the perturbed values.
\<close>

lemma evalEqs_raise_keeps_perturbation:
  assumes "fst (evalEqs r t y ydot params) \<noteq> None" and "m_thermo r \<noteq> None"
  shows "m_sensValues (fst (snd (evalEqs r t y ydot params)))
     = map (\<lambda>i. m_perturb r (m_sensValues r ! i) (params i)) [0..<length (m_sensValues r)]"
proof -
  from assms(2) obtain th0 where th0: "m_thermo r = Some th0" by auto
  let ?th = "restoreState th0 (m_state r)"
  let ?r1 = "applySensitivity (r\<lparr>m_thermo := Some ?th\<rparr>) params"
  obtain res r2 ydot1 where body: "evalEqs_body ?r1 ?th t ydot = (res, r2, ydot1)"
    by (cases "evalEqs_body ?r1 ?th t ydot") auto
  from evalEqs_body_keeps [OF body] have "m_sensValues r2 = m_sensValues ?r1"
    by simp
  with assms(1) show ?thesis
    by (cases res) (simp_all add: evalEqs_unfold [OF th0 body] applySensitivity_def)
qed

text \<open>
  Claim C1, as the code has it. When \<^verbatim>\<open>evalEqs\<close> returns, that is when no collaborator
  call raises, the perturbation that was applied at the start has been reverted: the
  sensitivity parameters have the values they had before the call. For the exit paths
  with an error the claim does not hold, as the example after this theorem shows.
\<close>

theorem evalEqs_reverts_on_return:
  assumes "fst (evalEqs r t y ydot params) = None"
  shows "m_sensValues (fst (snd (evalEqs r t y ydot params))) = m_sensValues r"
proof -
  from assms obtain th0 where th0: "m_thermo r = Some th0"
    by (cases "m_thermo r") (auto simp: evalEqs_def)
  let ?th = "restoreState th0 (m_state r)"
  let ?r1 = "applySensitivity (r\<lparr>m_thermo := Some ?th\<rparr>) params"
  obtain res r2 ydot1 where body: "evalEqs_body ?r1 ?th t ydot = (res, r2, ydot1)"
    by (cases "evalEqs_body ?r1 ?th t ydot") auto
  from evalEqs_body_keeps [OF body] have "m_sensSaved r2 = m_sensSaved ?r1"
    by simp
  with assms show ?thesis
    by (cases res)
      (simp_all add: evalEqs_unfold [OF th0 body] resetSensitivity_def applySensitivity_def)
qed

theorem evalEqs_reverts_on_return_witness:
  "fst (evalEqs example_reactor 0 example_y zero_buffer double_params) = None
   \<and> m_sensValues example_reactor = [1]
   \<and> m_sensValues (fst (snd (evalEqs example_reactor 0 example_y zero_buffer double_params))) = [1]"
proof -
  have ok: "fst (evalEqs example_reactor 0 example_y zero_buffer double_params) = None"
    by (simp add: example_defs evalEqs_defs Let_def upt_0_2)
  have before: "m_sensValues example_reactor = [1]"
    by (simp add: example_reactor_def)
  from evalEqs_reverts_on_return [OF ok] before ok show ?thesis
    by simp
qed

text \<open>
  Claim C1 as stated fails on an exit path with an error. The kinetics of
  \<open>failing_reactor\<close> throw on line 91; \<^verbatim>\<open>evalEqs\<close> passes the exception on, and the
  sensitivity parameter, 1 before the call, is left at its perturbed value 2.
\<close>

theorem evalEqs_raise_leaves_perturbation:
  "fst (evalEqs failing_reactor 0 example_y zero_buffer double_params)
     = Some (CanteraError ''getNetProductionRates'' ''failed'')
   \<and> m_sensValues failing_reactor = [1]
   \<and> m_sensValues (fst (snd (evalEqs failing_reactor 0 example_y zero_buffer double_params))) = [2]"
  by (simp add: example_defs evalEqs_defs Let_def)

lemma speciesLoop_upto:
  "snd (fold (speciesTerm r mw Y ms) [0..<n] acc) i =
     (if 3 \<le> i \<and> i < 3 + n then speciesRate r mw Y ms (i - 3) else snd acc i)"
proof (induction n arbitrary: i)
  case 0
  then show ?case by simp
next
  case (Suc n)
  let ?f = "speciesTerm r mw Y ms"
  have "snd (fold ?f [0..<Suc n] acc) i = snd (?f n (fold ?f [0..<n] acc)) i"
    by simp
  also have "\<dots> = (if i = 3 + n then speciesRate r mw Y ms n else snd (fold ?f [0..<n] acc) i)"
    by (simp add: speciesTerm_def [of r mw Y ms n] Let_def speciesRate_def)
  finally show ?case
    by (auto simp: Suc)
qed

lemma speciesLoop_ydot:
  "snd (speciesLoop r mw Y ms acc) i =
     (if 3 \<le> i \<and> i < 3 + m_nsp r then speciesRate r mw Y ms (i - 3) else snd acc i)"
  by (simp add: speciesLoop_def speciesLoop_upto)

lemma evalBalances_noflow:
  assumes "m_inlet r = []" and "m_outlet r = []" and "fst (evalBalances r th t ms ydot) = None"
  shows "snd (evalBalances r th t ms ydot) 0 = ms"
    and "n < m_nsp r \<Longrightarrow> snd (evalBalances r th t ms ydot) (n + 3)
           = speciesRate r (tp_molecularWeights th) (massFractions th) ms n"
  using assms
  by (auto simp: evalBalances_def Let_def speciesLoop_ydot split: if_splits sum.splits)

lemma evalSurfaces_nowalls:
  "m_wall r = [] \<Longrightarrow>
     evalSurfaces r t ydot off = (Inr 0, r\<lparr>m_sdot := replicate (m_nsp r) 0\<rparr>, ydot)"
  by (simp add: evalSurfaces_def)

lemma store_vec_nth: "n < length vs \<Longrightarrow> store_vec vs buf ! n = vs ! n"
  by (simp add: store_vec_def nth_append)

lemma fetchNetProductionRates_zero:
  assumes "fetchNetProductionRates r th = Inr r'"
    and "\<And>kin w. m_chem r \<Longrightarrow> m_kin r = Some kin
           \<Longrightarrow> kin_netProductionRates kin (m_sensValues r) (tp_state th) = Inr w
           \<Longrightarrow> w = replicate (m_nsp r) 0"
    and "\<not> m_chem r \<Longrightarrow> \<forall>n<m_nsp r. m_wdot r ! n = 0"
    and "n < m_nsp r"
  shows "m_wdot r' ! n = 0"
proof (cases "m_chem r")
  case False
  with assms show ?thesis by (simp add: fetchNetProductionRates_def)
next
  case True
  with assms(1) obtain kin w where k: "m_kin r = Some kin"
    "kin_netProductionRates kin (m_sensValues r) (tp_state th) = Inr w"
    "r' = r\<lparr>m_wdot := store_vec w (m_wdot r)\<rparr>"
    by (auto simp: fetchNetProductionRates_def split: option.splits sum.splits)
  from assms(2) [OF True k(1) k(2)] have "w = replicate (m_nsp r) 0" .
  with k(3) assms(4) show ?thesis by (simp add: store_vec_nth)
qed

text \<open>
  The balance without flows when the production rates that \<^verbatim>\<open>evalEqs\<close> reads are zero.
  Take a reactor with no inlet, no outlet and no wall, whose mass is not zero. Let the
  production-rate buffer hold zeros when line 103 reads it: with chemistry enabled
  because the kinetics evaluator reports zero for each of the \<open>m_nsp r\<close> species at this
  call (at the perturbed parameters and the state of the snapshot), with chemistry
  disabled because the buffer, which line 91 then does not refresh, held zeros before.
  If \<^verbatim>\<open>evalEqs\<close> returns, \<^verbatim>\<open>ydot[0]\<close> is zero and so is \<^verbatim>\<open>ydot[n + 3]\<close> for every species.
\<close>

lemma evalEqs_no_flow_zero_buffer:
  assumes inl: "m_inlet r = []" and out: "m_outlet r = []" and walls: "m_wall r = []"
    and mass: "m_mass r \<noteq> 0"
    and hom: "\<And>kin w. m_chem r \<Longrightarrow> m_kin r = Some kin
                 \<Longrightarrow> kin_netProductionRates kin (m_sensValues (applySensitivity r params))
                       (m_state r) = Inr w
                 \<Longrightarrow> w = replicate (m_nsp r) 0"
    and off: "\<not> m_chem r \<Longrightarrow> \<forall>n<m_nsp r. m_wdot r ! n = 0"
    and ok: "fst (evalEqs r t y ydot params) = None"
  shows "snd (snd (evalEqs r t y ydot params)) 0 = 0
       \<and> (\<forall>n<m_nsp r. snd (snd (evalEqs r t y ydot params)) (n + 3) = 0)"
proof -
  from ok obtain th0 where th0: "m_thermo r = Some th0"
    by (cases "m_thermo r") (auto simp: evalEqs_def)
  let ?th = "restoreState th0 (m_state r)"
  let ?r1 = "applySensitivity (r\<lparr>m_thermo := Some ?th\<rparr>) params"
  have ev: "snd (snd (evalEqs r t y ydot params)) = snd (snd (evalEqs_body ?r1 ?th t ydot))"
    "fst (evalEqs_body ?r1 ?th t ydot) = None"
    using ok th0 by (auto simp: evalEqs_def Let_def split: prod.splits option.splits)
  from ev(2) obtain uk where uk:
    "tp_partialMolarIntEnergies ?th (m_sensValues ?r1) (tp_state ?th) = Inr uk"
    by (auto simp: evalEqs_body_def split: sum.splits)
  let ?r1' = "?r1\<lparr>m_uk := store_vec uk (m_uk ?r1)\<rparr>"
  from ev(2) uk obtain r2 where r2: "fetchNetProductionRates ?r1' ?th = Inr r2"
    by (auto simp: evalEqs_body_def Let_def split: sum.splits)
  from ev(2) uk r2 obtain r3 where r3: "evalWalls r2 t = Inr r3"
    by (auto simp: evalEqs_body_def Let_def split: sum.splits)
  have f1: "m_chem ?r1' = m_chem r" "m_kin ?r1' = m_kin r" "m_nsp ?r1' = m_nsp r"
    "m_wdot ?r1' = m_wdot r" "m_inlet ?r1' = []" "m_outlet ?r1' = []" "m_wall ?r1' = []"
    "m_mass ?r1' = m_mass r"
    "m_sensValues ?r1' = m_sensValues (applySensitivity r params)"
    "tp_state ?th = m_state r"
    using inl out walls by (simp_all add: applySensitivity_def restoreState_def)
  have wz: "m_wdot r2 ! n = 0" if "n < m_nsp r" for n
  proof (rule fetchNetProductionRates_zero [OF r2])
    show "w = replicate (m_nsp ?r1') 0"
      if "m_chem ?r1'" "m_kin ?r1' = Some kin"
        "kin_netProductionRates kin (m_sensValues ?r1') (tp_state ?th) = Inr w"
      for kin w
      using hom [of kin w] that by (simp add: f1)
    show "\<forall>n<m_nsp ?r1'. m_wdot ?r1' ! n = 0" if "\<not> m_chem ?r1'"
      using off that by (simp add: f1)
    show "n < m_nsp ?r1'" using that by (simp add: f1)
  qed
  have f3: "m_wall r3 = []" "m_inlet r3 = []" "m_outlet r3 = []" "m_nsp r3 = m_nsp r"
    "m_wdot r3 = m_wdot r2" "m_mass r3 = m_mass r"
    using evalWalls_keeps [OF r3] fetchNetProductionRates_keeps [OF r2] f1 by simp_all
  let ?r4 = "r3\<lparr>m_sdot := replicate (m_nsp r3) 0\<rparr>"
  have body: "evalEqs_body ?r1 ?th t ydot =
     (fst (evalBalances ?r4 ?th t 0 ydot), ?r4, snd (evalBalances ?r4 ?th t 0 ydot))"
    using uk r2 r3 f3(1)
    by (simp add: evalEqs_body_def Let_def evalSurfaces_nowalls split: prod.splits)
  have bal: "fst (evalBalances ?r4 ?th t 0 ydot) = None"
    using ev(2) by (simp add: body)
  have f4: "m_inlet ?r4 = []" "m_outlet ?r4 = []" using f3 by simp_all
  have "snd (evalBalances ?r4 ?th t 0 ydot) 0 = 0"
    by (rule evalBalances_noflow(1) [OF f4 bal])
  moreover have "snd (evalBalances ?r4 ?th t 0 ydot) (n + 3) = 0" if "n < m_nsp r" for n
  proof -
    have "n < m_nsp ?r4" using that f3 by simp
    from evalBalances_noflow(2) [OF f4 bal this]
    show ?thesis using wz [OF that] that f3 by (simp add: speciesRate_def)
  qed
  ultimately show ?thesis by (simp add: ev(1) body)
qed

lemma evalEqs_no_flow_zero_buffer_example:
  "m_inlet idle_reactor = [] \<and> m_outlet idle_reactor = [] \<and> m_wall idle_reactor = []
   \<and> m_mass idle_reactor \<noteq> 0
   \<and> m_chem idle_reactor
   \<and> fst (evalEqs idle_reactor 0 example_y example_y double_params) = None
   \<and> snd (snd (evalEqs idle_reactor 0 example_y example_y double_params)) 0 = 0
   \<and> snd (snd (evalEqs idle_reactor 0 example_y example_y double_params)) 3 = 0
   \<and> snd (snd (evalEqs idle_reactor 0 example_y example_y double_params)) 4 = 0"
proof -
  have flows: "m_inlet idle_reactor = []" "m_outlet idle_reactor = []" "m_wall idle_reactor = []"
    and mass: "m_mass idle_reactor \<noteq> 0"
    and chem: "m_chem idle_reactor" "m_kin idle_reactor = Some idle_kinetics"
    and K: "m_nsp idle_reactor = 2"
    by (simp_all add: idle_reactor_def example_reactor_def)
  have rates: "kin_netProductionRates idle_kinetics sv st = Inr (replicate (m_nsp idle_reactor) 0)"
    for sv st
    by (simp add: idle_kinetics_def K numeral_2_eq_2)
  have ok: "fst (evalEqs idle_reactor 0 example_y example_y double_params) = None"
    by (simp add: example_defs evalEqs_defs Let_def upt_0_2)
  have "snd (snd (evalEqs idle_reactor 0 example_y example_y double_params)) 0 = 0
       \<and> (\<forall>n<m_nsp idle_reactor.
             snd (snd (evalEqs idle_reactor 0 example_y example_y double_params)) (n + 3) = 0)"
  proof (rule evalEqs_no_flow_zero_buffer [OF flows mass _ _ ok])
    show "w = replicate (m_nsp idle_reactor) 0"
      if "m_kin idle_reactor = Some kin"
        "kin_netProductionRates kin (m_sensValues (applySensitivity idle_reactor double_params))
           (m_state idle_reactor) = Inr w"
      for kin w
      using that chem(2) rates by simp
    show "\<forall>n<m_nsp idle_reactor. m_wdot idle_reactor ! n = 0" if "\<not> m_chem idle_reactor"
      using that chem(1) by simp
  qed
  then have zero: "snd (snd (evalEqs idle_reactor 0 example_y example_y double_params)) 0 = 0"
    and all: "\<forall>n<2. snd (snd (evalEqs idle_reactor 0 example_y example_y double_params)) (n + 3) = 0"
    by (simp_all add: K)
  from all [rule_format, of 0] all [rule_format, of 1]
  have sp: "snd (snd (evalEqs idle_reactor 0 example_y example_y double_params)) 3 = 0"
    "snd (snd (evalEqs idle_reactor 0 example_y example_y double_params)) 4 = 0"
    by simp_all
  from flows mass chem(1) ok zero sp show ?thesis
    by blast
qed

lemma cooled_reactor_fields:
  "m_inlet cooled_reactor = []" "m_outlet cooled_reactor = []" "m_wall cooled_reactor = []"
  "m_mass cooled_reactor = 4" "m_vol cooled_reactor = 2" "m_nsp cooled_reactor = 2"
  "\<not> m_chem cooled_reactor" "m_energy cooled_reactor"
  "m_kin cooled_reactor = Some thermal_kinetics"
  "m_thermo cooled_reactor = Some example_gas"
  "m_state cooled_reactor = \<lparr>st_T = 300, st_rho = 2, st_Y = [1 / 4, 3 / 4]\<rparr>"
  "m_sensValues cooled_reactor = [1]" "m_perturb cooled_reactor = (\<lambda>v p. v * p)"
  "m_pressure cooled_reactor = 600"
  "m_uk cooled_reactor = [1, 2]" "m_wdot cooled_reactor = [1, 0]"
  by (simp_all add: cooled_reactor_def example_defs evalJacEqs_def updateState_def
      updateSurfaceState_def store_vec_def Let_def thermo_defs read_block_def upt_0_2)

text \<open>
  Claim C5 fails on the code, by the defect of claim C6: with chemistry disabled
  \<^verbatim>\<open>evalEqs\<close> reads the production-rate buffer as it finds it. \<open>hot_frozen_reactor\<close> has
  no inlet, no outlet, no wall, chemistry disabled and a buffer of zeros; its kinetics
  produce the first species above the temperature 400 only. At the temperature 500 one
  evaluation of the Jacobian leaves the rates \<open>[1, 0]\<close> in the buffer (line 168), and
  \<^verbatim>\<open>updateState\<close> then brings the reactor to the temperature 300: this is
  \<open>cooled_reactor\<close>. It has no inlet, no outlet and no wall, its mass is 4, the rates of
  its kinetics at its state are zero for both species, and there are no heterogeneous
  rates. \<^verbatim>\<open>evalEqs\<close> returns, with \<^verbatim>\<open>ydot[0] = 0\<close>, but with \<^verbatim>\<open>ydot[3] = 1\<close> where the claim says
  zero.
\<close>

theorem evalEqs_no_flow_stale_rates:
  "m_inlet cooled_reactor = [] \<and> m_outlet cooled_reactor = [] \<and> m_wall cooled_reactor = []
   \<and> m_mass cooled_reactor = 4
   \<and> \<not> m_chem cooled_reactor
   \<and> m_kin cooled_reactor = Some thermal_kinetics
   \<and> kin_netProductionRates thermal_kinetics (m_sensValues cooled_reactor) (m_state cooled_reactor)
       = Inr [0, 0]
   \<and> fst (evalEqs cooled_reactor 0 example_y zero_buffer unit_params) = None
   \<and> m_sdot (fst (snd (evalEqs cooled_reactor 0 example_y zero_buffer unit_params))) = [0, 0]
   \<and> snd (snd (evalEqs cooled_reactor 0 example_y zero_buffer unit_params)) 0 = 0
   \<and> snd (snd (evalEqs cooled_reactor 0 example_y zero_buffer unit_params)) 3 = 1"
proof -
  have rates: "kin_netProductionRates thermal_kinetics (m_sensValues cooled_reactor)
      (m_state cooled_reactor) = Inr [0, 0]"
    by (simp add: cooled_reactor_fields thermal_kinetics_def)
  have run: "fst (evalEqs cooled_reactor 0 example_y zero_buffer unit_params) = None"
    "m_sdot (fst (snd (evalEqs cooled_reactor 0 example_y zero_buffer unit_params))) = [0, 0]"
    "snd (snd (evalEqs cooled_reactor 0 example_y zero_buffer unit_params)) 0 = 0"
    "snd (snd (evalEqs cooled_reactor 0 example_y zero_buffer unit_params)) 3 = 1"
    by (simp_all add: evalEqs_defs cooled_reactor_fields Let_def upt_0_2 example_gas_def
        zero_buffer_def unit_params_def numeral_2_eq_2)
  from cooled_reactor_fields(1-4,7,9) rates run show ?thesis
    by blast
qed

text \<open>
  Claim C6 fails on the code. With chemistry disabled, \<^verbatim>\<open>evalEqs\<close> skips the fetch of line 91
  and reads the production-rate buffer \<^verbatim>\<open>m_wdot\<close> as it finds it. \<^verbatim>\<open>evalJacEqs\<close> fills
  that buffer on line 168 whether chemistry is enabled or not. So after one Jacobian
  evaluation of the reactor \<open>frozen_reactor\<close>, whose chemistry is disabled and whose
  buffer holds zeros, the buffer holds the rates \<open>[1, 0]\<close> of the kinetics, and
  \<^verbatim>\<open>evalEqs\<close> computes a derivative of 1 for the first mass fraction and of \<open>- 1 / 2\<close> for
  the temperature, where rates of zero give 0 for both, as the call before the Jacobian
  evaluation shows.
\<close>

theorem evalEqs_chemistry_off_stale_rates:
  "\<not> m_chem frozen_reactor
   \<and> m_wdot frozen_reactor = [0, 0]
   \<and> snd (snd (evalEqs frozen_reactor 0 example_y zero_buffer unit_params)) 3 = 0
   \<and> snd (snd (evalEqs frozen_reactor 0 example_y zero_buffer unit_params)) 2 = 0
   \<and> fst (evalJacEqs 8314 frozen_reactor 0 example_y zero_jacobian 0) = None
   \<and> \<not> m_chem (fst (snd (evalJacEqs 8314 frozen_reactor 0 example_y zero_jacobian 0)))
   \<and> m_wdot (fst (snd (evalJacEqs 8314 frozen_reactor 0 example_y zero_jacobian 0))) = [1, 0]
   \<and> snd (snd (evalEqs (fst (snd (evalJacEqs 8314 frozen_reactor 0 example_y zero_jacobian 0)))
                  0 example_y zero_buffer unit_params)) 3 = 1
   \<and> snd (snd (evalEqs (fst (snd (evalJacEqs 8314 frozen_reactor 0 example_y zero_jacobian 0)))
                  0 example_y zero_buffer unit_params)) 2 = - 1 / 2"
proof -
  have jac: "fst (evalJacEqs 8314 frozen_reactor 0 example_y zero_jacobian 0) = None"
    "fst (snd (evalJacEqs 8314 frozen_reactor 0 example_y zero_jacobian 0))
       = frozen_reactor\<lparr>m_work := [3, 3], m_uk := [1, 2], m_wdot := [1, 0]\<rparr>"
    by (simp_all add: example_defs evalJacEqs_def store_vec_def Let_def)
  have before: "snd (snd (evalEqs frozen_reactor 0 example_y zero_buffer unit_params)) 3 = 0"
    "snd (snd (evalEqs frozen_reactor 0 example_y zero_buffer unit_params)) 2 = 0"
    by (simp_all add: example_defs evalEqs_defs Let_def upt_0_2)
  have after: "snd (snd (evalEqs (frozen_reactor\<lparr>m_work := [3, 3], m_uk := [1, 2], m_wdot := [1, 0]\<rparr>)
                  0 example_y zero_buffer unit_params)) 3 = 1"
    "snd (snd (evalEqs (frozen_reactor\<lparr>m_work := [3, 3], m_uk := [1, 2], m_wdot := [1, 0]\<rparr>)
                  0 example_y zero_buffer unit_params)) 2 = - 1 / 2"
    by (simp_all add: example_defs evalEqs_defs Let_def upt_0_2)
  have frozen: "\<not> m_chem frozen_reactor" "m_wdot frozen_reactor = [0, 0]"
    by (simp_all add: frozen_reactor_def example_reactor_def)
  show ?thesis
    by (simp add: jac before after frozen)
qed



subsection \<open>The Jacobian\<close>

lemma speciesRows_upto:
  "fold (\<lambda>i J'. jac_set J' (y_ind + i) T_ind (f i)) [0..<n] J a b =
     (if b = T_ind \<and> y_ind \<le> a \<and> a < y_ind + n then f (a - y_ind) else J a b)"
proof (induction n)
  case 0
  then show ?case by simp
next
  case (Suc n)
  then show ?case by (auto simp: jac_set_def)
qed

lemma speciesRows_frame:
  assumes "(a, b) \<notin> {(y_ind + k, T_ind) | k. k < m_nsp r}"
  shows "speciesRows r mw dw T y_ind T_ind J a b = J a b"
proof -
  have "\<not> (b = T_ind \<and> y_ind \<le> a \<and> a < y_ind + m_nsp r)"
  proof
    assume h: "b = T_ind \<and> y_ind \<le> a \<and> a < y_ind + m_nsp r"
    then have "a = y_ind + (a - y_ind)" "a - y_ind < m_nsp r" by auto
    with h assms show False by blast
  qed
  then show ?thesis
    unfolding speciesRows_def speciesRows_upto by (rule if_not_P)
qed

text \<open>
  Claim C8. \<^verbatim>\<open>evalJacEqs\<close> changes no entry of the Jacobian but the diagonal entry of the
  temperature, \<open>(start + 2, start + 2)\<close>, and the temperature column of the species
  rows, \<open>(start + 3 + k, start + 2)\<close> for \<open>k < K = m_nsp r\<close>: every other entry, the
  temperature row of the species columns and the block of the species among them, is
  after the call what it was before, whether the call returns or raises.
\<close>

theorem evalJacEqs_frame:
  assumes "(a, b) \<notin> jacWritten start (m_nsp r)"
  shows "snd (snd (evalJacEqs GasConstant r time y J start)) a b = J a b"
proof -
  from assms have ab: "\<not> (a = start + 2 \<and> b = start + 2)"
    and rows: "(a, b) \<notin> {(start + 3 + k, start + 2) | k. k < m_nsp r}"
    by (auto simp: jacWritten_def)
  have diag: "jac_set J (start + 2) (start + 2) v a b = J a b" for v
    using ab by (auto simp: jac_set_def)
  have col: "speciesRows r' mw dw T (start + 3) (start + 2) J' a b = J' a b"
    if "m_nsp r' = m_nsp r" for r' mw dw T J'
    using rows that by (intro speciesRows_frame) simp
  show ?thesis
    by (simp add: evalJacEqs_def Let_def col diag del: add_2_eq_Suc' add_2_eq_Suc
        split: option.splits sum.splits)
qed

theorem evalJacEqs_frame_witness:
  "(2, 3) \<notin> jacWritten 0 (m_nsp example_reactor)
   \<and> (3, 4) \<notin> jacWritten 0 (m_nsp example_reactor)
   \<and> fst (evalJacEqs 8314 example_reactor 0 example_y example_jacobian 0) = None
   \<and> snd (snd (evalJacEqs 8314 example_reactor 0 example_y example_jacobian 0)) 2 3
       = example_jacobian 2 3
   \<and> snd (snd (evalJacEqs 8314 example_reactor 0 example_y example_jacobian 0)) 3 4
       = example_jacobian 3 4
   \<and> snd (snd (evalJacEqs 8314 example_reactor 0 example_y example_jacobian 0)) 3 2 = 1 / 300"
proof -
  have out: "(2, 3) \<notin> jacWritten 0 (m_nsp example_reactor)"
    "(3, 4) \<notin> jacWritten 0 (m_nsp example_reactor)"
    by (simp_all add: jacWritten_def)
  have ok: "fst (evalJacEqs 8314 example_reactor 0 example_y example_jacobian 0) = None"
    by (simp add: example_defs evalJacEqs_def Let_def)
  have row: "snd (snd (evalJacEqs 8314 example_reactor 0 example_y example_jacobian 0)) 3 2 = 1 / 300"
    by (simp add: example_defs evalJacEqs_def Let_def store_vec_def speciesRows_def jac_set_def
        temperature_def upt_0_2)
  from out ok row
    evalJacEqs_frame [OF out(1), of 8314 0 example_y example_jacobian]
    evalJacEqs_frame [OF out(2), of 8314 0 example_y example_jacobian]
  show ?thesis
    by simp
qed

text \<open>
  Claim C9 fails on the code. On line 159 the term of species \<open>i\<close> is weighted by
  \<^verbatim>\<open>y[start + i]\<close>, not by the mass-fraction entry \<^verbatim>\<open>y[start + 3 + i]\<close>: for the first
  species the weight is the mass, for the second the volume. In the example (mass 4,
  volume 2, mass fractions \<open>1 / 4\<close> and \<open>3 / 4\<close>) the sum is \<open>6 / 2 * 4 + 64 / 32 * 2 = 16\<close>
  where the mass fractions give \<open>6 / 2 * (1 / 4) + 64 / 32 * (3 / 4) = 9 / 4\<close>. The
  temperature diagonal of the Jacobian accordingly does not change when the
  mass-fraction entries of \<open>y\<close> do, and changes when the mass entry does.
\<close>

theorem dcvRdT_weights_wrong_entries:
  "dcvRdT_term [6, 64] [2, 32] example_y 0 0 = 6 / 2 * example_y 0
   \<and> dcvRdT_term [6, 64] [2, 32] example_y 0 1 = 64 / 32 * example_y 1
   \<and> dcvRdT_loop [6, 64] [2, 32] example_y 0 2 = 16
   \<and> 6 / 2 * example_y (0 + 3 + 0) + 64 / 32 * example_y (0 + 3 + 1) = 9 / 4
   \<and> snd (snd (evalJacEqs 8314 example_reactor 0 (example_y(3 := 1 / 2, 4 := 1 / 2)) zero_jacobian 0)) 2 2
       = snd (snd (evalJacEqs 8314 example_reactor 0 example_y zero_jacobian 0)) 2 2
   \<and> snd (snd (evalJacEqs 8314 example_reactor 0 (example_y(0 := 8)) zero_jacobian 0)) 2 2
       \<noteq> snd (snd (evalJacEqs 8314 example_reactor 0 example_y zero_jacobian 0)) 2 2"
  by (simp add: example_defs evalJacEqs_def Let_def store_vec_def speciesRows_def jac_set_def
      temperature_def dcvRdT_loop_def dcvRdT_term_def df1dT_loop_def df1dT_2t_loop_def upt_0_2)

end
